theory Spec2Isabelle
  imports Complex_Main
begin

section \<open>JavaScript numbers and values\<close>

text \<open>
  The bot process is JavaScript, whose numbers are IEEE 754 doubles. A finite double is
  held here as the rational number it is; \<open>PInf\<close>, \<open>NInf\<close> and \<open>NaN\<close> are \<open>Infinity\<close>,
  \<open>-Infinity\<close> and \<open>NaN\<close>. The zero carries no sign: the code divides only by numbers it
  has tested to be positive or not zero (a window of at least 1, the constant 100, a
  positive price or step, an entry price that is not 0), so the sign of a zero is never
  observed.
\<close>

datatype jsnum = Num rat | PInf | NInf | NaN

subsection \<open>Rounding to the nearest double\<close>

text \<open>\<open>pow2 e\<close> is \<open>2\<close> to the power \<open>e\<close>, for an integer \<open>e\<close> of either sign.\<close>

definition pow2 :: "int \<Rightarrow> rat" where
  "pow2 e = (if 0 \<le> e then 2 ^ nat e else 1 / 2 ^ nat (- e))"

text \<open>The binary exponent of a positive number: \<open>2^k \<le> x < 2^(k+1)\<close> for \<open>k = flog2 x\<close>.\<close>

function flog2 :: "rat \<Rightarrow> int" where
  "flog2 x = (if x \<le> 0 then 0
              else if 2 \<le> x then flog2 (x / 2) + 1
              else if x < 1 then flog2 (x * 2) - 1
              else 0)"
  by pat_completeness auto
termination
proof (relation "measure (\<lambda>x. 2 * nat \<lceil>1 / x\<rceil> + nat \<lceil>x\<rceil>)")
  show "wf (measure (\<lambda>x::rat. 2 * nat \<lceil>1 / x\<rceil> + nat \<lceil>x\<rceil>))" by simp
next
  fix x :: rat
  assume a: "\<not> x \<le> 0" "2 \<le> x"
  have "\<lceil>1 / (x / 2)\<rceil> = 1" using a by (simp add: ceiling_eq_iff)
  moreover have "\<lceil>1 / x\<rceil> = 1" using a by (simp add: ceiling_eq_iff)
  moreover have "\<lceil>x / 2\<rceil> < \<lceil>x\<rceil>" using a by (simp add: ceiling_less_iff) linarith
  moreover have "0 < \<lceil>x\<rceil>" using a by simp
  ultimately show "(x / 2, x) \<in> measure (\<lambda>x. 2 * nat \<lceil>1 / x\<rceil> + nat \<lceil>x\<rceil>)"
    by simp
next
  fix x :: rat
  assume a: "\<not> x \<le> 0" "\<not> 2 \<le> x" "x < 1"
  have c1: "\<lceil>x\<rceil> = 1" using a by (simp add: ceiling_eq_iff)
  have c2: "\<lceil>x * 2\<rceil> \<le> 2" using a by (simp add: ceiling_le_iff)
  have "1 < 1 / x" using a by simp
  then have big: "2 \<le> \<lceil>1 / x\<rceil>" by linarith
  have "1 / x \<le> rat_of_int \<lceil>1 / x\<rceil>" by (rule le_of_int_ceiling)
  then have "(1 / x) / 2 \<le> rat_of_int \<lceil>1 / x\<rceil> / 2" by simp
  then have "1 / (x * 2) \<le> of_int \<lceil>1 / x\<rceil> / 2" by (simp add: field_simps)
  also have "\<dots> \<le> of_int (\<lceil>1 / x\<rceil> - 1)" using big by simp
  finally have c3: "\<lceil>1 / (x * 2)\<rceil> \<le> \<lceil>1 / x\<rceil> - 1" by (simp only: ceiling_le_iff)
  have c4: "0 < \<lceil>1 / (x * 2)\<rceil>" using a by simp
  have "2 * nat \<lceil>1 / (x * 2)\<rceil> + nat \<lceil>x * 2\<rceil> < 2 * nat \<lceil>1 / x\<rceil> + nat \<lceil>x\<rceil>"
    using c1 c2 c3 c4 big by linarith
  then show "(x * 2, x) \<in> measure (\<lambda>x. 2 * nat \<lceil>1 / x\<rceil> + nat \<lceil>x\<rceil>)"
    by simp
qed

declare flog2.simps [simp del]

text \<open>Rounding to the nearest integer, a tie going to the even one.\<close>

definition roundEven :: "rat \<Rightarrow> int" where
  "roundEven x =
     (let n = \<lfloor>x\<rfloor>; r = x - rat_of_int n
      in if r < 1 / 2 then n else if 1 / 2 < r then n + 1 else if even n then n else n + 1)"

text \<open>
  \<open>fl x\<close> is the double that an operation with exact result \<open>x\<close> returns: \<open>x\<close> rounded to
  53 significant bits (to a multiple of \<open>2^-1074\<close> in the subnormal range), ties to even,
  and an infinity when the rounded value leaves the range of the doubles.
\<close>

definition fl :: "rat \<Rightarrow> jsnum" where
  "fl x =
     (if x = 0 then Num 0
      else let e = max (- 1074) (flog2 \<bar>x\<bar> - 52);
               y = rat_of_int (roundEven (x / pow2 e)) * pow2 e
           in if 2 ^ 1024 \<le> y then PInf else if y \<le> - (2 ^ 1024) then NInf else Num y)"

subsection \<open>Arithmetic and comparison\<close>

fun js_neg :: "jsnum \<Rightarrow> jsnum" where
  "js_neg (Num a) = Num (- a)"
| "js_neg PInf = NInf"
| "js_neg NInf = PInf"
| "js_neg NaN = NaN"

text \<open>\<open>Math.abs\<close> and \<open>Math.floor\<close>.\<close>

fun js_abs :: "jsnum \<Rightarrow> jsnum" where
  "js_abs (Num a) = Num \<bar>a\<bar>"
| "js_abs PInf = PInf"
| "js_abs NInf = PInf"
| "js_abs NaN = NaN"

fun js_floor :: "jsnum \<Rightarrow> jsnum" where
  "js_floor (Num a) = Num (rat_of_int \<lfloor>a\<rfloor>)"
| "js_floor PInf = PInf"
| "js_floor NInf = NInf"
| "js_floor NaN = NaN"

fun js_add :: "jsnum \<Rightarrow> jsnum \<Rightarrow> jsnum" where
  "js_add (Num a) (Num b) = fl (a + b)"
| "js_add NaN _ = NaN"
| "js_add _ NaN = NaN"
| "js_add PInf NInf = NaN"
| "js_add NInf PInf = NaN"
| "js_add PInf _ = PInf"
| "js_add _ PInf = PInf"
| "js_add NInf _ = NInf"
| "js_add _ NInf = NInf"

definition js_sub :: "jsnum \<Rightarrow> jsnum \<Rightarrow> jsnum" where
  "js_sub a b = js_add a (js_neg b)"

fun js_mul :: "jsnum \<Rightarrow> jsnum \<Rightarrow> jsnum" where
  "js_mul (Num a) (Num b) = fl (a * b)"
| "js_mul NaN _ = NaN"
| "js_mul _ NaN = NaN"
| "js_mul PInf (Num b) = (if b = 0 then NaN else if 0 < b then PInf else NInf)"
| "js_mul NInf (Num b) = (if b = 0 then NaN else if 0 < b then NInf else PInf)"
| "js_mul (Num a) PInf = (if a = 0 then NaN else if 0 < a then PInf else NInf)"
| "js_mul (Num a) NInf = (if a = 0 then NaN else if 0 < a then NInf else PInf)"
| "js_mul PInf PInf = PInf"
| "js_mul NInf NInf = PInf"
| "js_mul PInf NInf = NInf"
| "js_mul NInf PInf = NInf"

fun js_div :: "jsnum \<Rightarrow> jsnum \<Rightarrow> jsnum" where
  "js_div (Num a) (Num b) =
     (if b = 0 then (if a = 0 then NaN else if 0 < a then PInf else NInf) else fl (a / b))"
| "js_div NaN _ = NaN"
| "js_div _ NaN = NaN"
| "js_div (Num a) PInf = Num 0"
| "js_div (Num a) NInf = Num 0"
| "js_div PInf (Num b) = (if 0 \<le> b then PInf else NInf)"
| "js_div NInf (Num b) = (if 0 \<le> b then NInf else PInf)"
| "js_div PInf PInf = NaN"
| "js_div PInf NInf = NaN"
| "js_div NInf PInf = NaN"
| "js_div NInf NInf = NaN"

text \<open>Comparisons: any comparison with \<open>NaN\<close> is false.\<close>

fun js_lt :: "jsnum \<Rightarrow> jsnum \<Rightarrow> bool" where
  "js_lt (Num a) (Num b) = (a < b)"
| "js_lt NaN _ = False"
| "js_lt _ NaN = False"
| "js_lt PInf _ = False"
| "js_lt _ NInf = False"
| "js_lt _ PInf = True"
| "js_lt NInf _ = True"

fun js_le :: "jsnum \<Rightarrow> jsnum \<Rightarrow> bool" where
  "js_le (Num a) (Num b) = (a \<le> b)"
| "js_le NaN _ = False"
| "js_le _ NaN = False"
| "js_le _ PInf = True"
| "js_le NInf _ = True"
| "js_le PInf _ = False"
| "js_le _ NInf = False"

definition js_gt :: "jsnum \<Rightarrow> jsnum \<Rightarrow> bool" where
  "js_gt a b = js_lt b a"

definition js_ge :: "jsnum \<Rightarrow> jsnum \<Rightarrow> bool" where
  "js_ge a b = js_le b a"

text \<open>\<open>Math.max\<close> of two numbers.\<close>

definition js_max :: "jsnum \<Rightarrow> jsnum \<Rightarrow> jsnum" where
  "js_max a b = (if a = NaN \<or> b = NaN then NaN else if js_lt a b then b else a)"

text \<open>\<open>n || 0\<close> for a number \<open>n\<close>.\<close>

definition orZero :: "jsnum \<Rightarrow> jsnum" where
  "orZero n = (if n = NaN then Num 0 else n)"

subsection \<open>Values read from the store\<close>

text \<open>
  A configuration field read from the store is a \<open>jsval\<close>: \<open>undefined\<close>, \<open>null\<close>, a number
  or a string. A string carries the number that \<open>Number(s)\<close> converts it to (\<open>NaN\<close> when
  the text is not numeric), since every use below goes through that conversion.
\<close>

datatype jsval = JUndefined | JNull | JNumber jsnum | JString string jsnum

text \<open>\<open>Number(v)\<close>.\<close>

fun toNum :: "jsval \<Rightarrow> jsnum" where
  "toNum JUndefined = NaN"
| "toNum JNull = Num 0"
| "toNum (JNumber n) = n"
| "toNum (JString s n) = (if s = [] then Num 0 else n)"

text \<open>Truthiness, as tested by \<open>v || d\<close> and \<open>!v\<close>.\<close>

fun truthy :: "jsval \<Rightarrow> bool" where
  "truthy JUndefined = False"
| "truthy JNull = False"
| "truthy (JNumber (Num r)) = (r \<noteq> 0)"
| "truthy (JNumber NaN) = False"
| "truthy (JNumber PInf) = True"
| "truthy (JNumber NInf) = True"
| "truthy (JString s n) = (s \<noteq> [])"

text \<open>\<open>v || d\<close> for a numeric default \<open>d\<close>, read as a number where it is used.\<close>

definition orDefault :: "jsval \<Rightarrow> rat \<Rightarrow> jsnum" where
  "orDefault v d = (if truthy v then toNum v else Num d)"

text \<open>
  \<open>toNumber(v, fallback)\<close>: the fallback for \<open>undefined\<close>, \<open>null\<close>, the empty string and
  anything whose conversion is not a finite number.
\<close>

fun toNumber :: "jsval \<Rightarrow> rat \<Rightarrow> rat" where
  "toNumber JUndefined fallback = fallback"
| "toNumber JNull fallback = fallback"
| "toNumber (JNumber (Num n)) fallback = n"
| "toNumber (JNumber PInf) fallback = fallback"
| "toNumber (JNumber NInf) fallback = fallback"
| "toNumber (JNumber NaN) fallback = fallback"
| "toNumber (JString s n) fallback =
     (if s = [] then fallback else case n of Num r \<Rightarrow> r | _ \<Rightarrow> fallback)"

section \<open>Signal engine\<close>

datatype signal = LONG | SHORT | HOLD

text \<open>
  \<open>values.slice(start)\<close>: the start is truncated toward zero, a negative one counts from
  the end, \<open>NaN\<close> is 0.
\<close>

definition sliceFrom :: "jsnum \<Rightarrow> 'a list \<Rightarrow> 'a list" where
  "sliceFrom start xs =
     (case start of
        Num r \<Rightarrow>
          (let k = (if r < 0 then \<lceil>r\<rceil> else \<lfloor>r\<rfloor>)
           in if k < 0 then drop (nat (int (length xs) + k)) xs else drop (nat k) xs)
      | PInf \<Rightarrow> []
      | NInf \<Rightarrow> xs
      | NaN \<Rightarrow> xs)"

text \<open>
  \<open>sma(values, period)\<close>: \<open>None\<close> is \<open>null\<close>. The samples are added from 0, left to right,
  every sum rounded; the total is divided by the period. (A JavaScript array has fewer
  than \<open>2^32\<close> elements, so its length is a double.)
\<close>

definition sma :: "rat list \<Rightarrow> jsnum \<Rightarrow> jsnum option" where
  "sma vals period =
     (if js_lt (Num (rat_of_nat (length vals))) period then None
      else let slice = sliceFrom (js_sub (Num (rat_of_nat (length vals))) period) vals;
               sum = foldl (\<lambda>a b. js_add a (Num b)) (Num 0) slice
           in Some (js_div sum period))"

record signalResult =
  signal :: signal
  fast :: "jsnum option"
  slow :: "jsnum option"

definition computeSignal :: "rat list \<Rightarrow> jsnum \<Rightarrow> jsnum \<Rightarrow> signalResult" where
  "computeSignal closes fastPeriod slowPeriod =
     (let fast = sma closes fastPeriod;
          slow = sma closes slowPeriod
      in case (fast, slow) of
           (Some f, Some s) \<Rightarrow>
             if js_gt f s then \<lparr>signal = LONG, fast = fast, slow = slow\<rparr>
             else if js_lt f s then \<lparr>signal = SHORT, fast = fast, slow = slow\<rparr>
             else \<lparr>signal = HOLD, fast = fast, slow = slow\<rparr>
         | _ \<Rightarrow> \<lparr>signal = HOLD, fast = fast, slow = slow\<rparr>)"

text \<open>\<open>roundStep(value, step)\<close>, for a finite \<open>step\<close>.\<close>

definition roundStep :: "jsnum \<Rightarrow> rat \<Rightarrow> jsnum" where
  "roundStep v step =
     (if step = 0 \<or> step \<le> 0 then v
      else let inv = js_div (Num 1) (Num step) in js_div (js_floor (js_mul v inv)) inv)"

section \<open>Configuration and runtime state\<close>

text \<open>
  A bot's configuration as \<open>rowToBot\<close> builds it from the store. The sub-objects that the
  code guards with \<open>?.\<close>, \<open>||\<close> or \<open>!\<close> are optional here as well.
\<close>

record strategyConfig =
  fastPeriod :: jsval
  slowPeriod :: jsval

record riskConfig =
  orderQuoteAmount :: jsval
  leverage :: jsval
  quantityStep :: jsval
  stopLossPercent :: jsval
  takeProfitPercent :: jsval
  maxDailyLossPercent :: jsval
  maxTotalLossPercent :: jsval

record positionConfig =
  preventDuplicateOrders :: "bool option"
  cooldownCandles :: jsval

text \<open>
  The virtual ledger of a dry-run bot. A balance that the store holds as \<open>NULL\<close> reads
  back as \<open>null\<close>, which the arithmetic below treats as 0; it is 0 here.
\<close>

record virtualLedger =
  initialQuoteBalance :: jsnum
  currentQuoteBalance :: jsnum
  currentBaseBalance :: jsnum

record botConfig =
  botId :: string
  enabled :: bool
  market :: string
  useTestnet :: bool
  dryRun :: bool
  strategy :: "strategyConfig option"
  risk :: "riskConfig option"
  position :: "positionConfig option"
  virtualBalance :: "virtualLedger option"

text \<open>\<open>config.risk?.f\<close> and \<open>(config.strategy || {}).f\<close>: \<open>undefined\<close> without the sub-object.\<close>

definition riskField :: "(riskConfig \<Rightarrow> jsval) \<Rightarrow> botConfig \<Rightarrow> jsval" where
  "riskField f config = (case risk config of None \<Rightarrow> JUndefined | Some r \<Rightarrow> f r)"

definition strategyField :: "(strategyConfig \<Rightarrow> jsval) \<Rightarrow> botConfig \<Rightarrow> jsval" where
  "strategyField f config = (case strategy config of None \<Rightarrow> JUndefined | Some st \<Rightarrow> f st)"

text \<open>
  The per-bot counters kept in \<open>botRuntimeData\<close>. The two candle counters only ever hold
  integers, stepped by 1 from 0; they are integers here.
\<close>

record botRuntime =
  lastOrderCandle :: int
  candleCount :: int
  dailyLoss :: jsnum
  totalLoss :: jsnum
  dailyResetTime :: int

definition initBotRuntime ::
  "string \<Rightarrow> int \<Rightarrow> (string \<rightharpoonup> botRuntime) \<Rightarrow> (string \<rightharpoonup> botRuntime) \<times> botRuntime" where
  "initBotRuntime bid now botRuntimeData =
     (case botRuntimeData bid of
        Some rt \<Rightarrow> (botRuntimeData, rt)
      | None \<Rightarrow>
          (let rt = \<lparr>lastOrderCandle = 0, candleCount = 0, dailyLoss = Num 0,
                     totalLoss = Num 0, dailyResetTime = now\<rparr>
           in (botRuntimeData(bid \<mapsto> rt), rt)))"

section \<open>Risk engine\<close>

text \<open>
  \<open>state.position\<close> of a futures tick: the numbers that \<open>Number\<close> made of the exchange's
  fields; without a position the amounts are 0 and the prices \<open>null\<close>.
\<close>

record statePosition =
  positionAmt :: jsnum
  entryPrice :: jsnum
  markPrice :: "jsnum option"
  unrealizedProfit :: "jsnum option"

record slTpCheck =
  closeReason :: string
  closePnl :: jsnum

text \<open>
  \<open>checkStopLossTakeProfit\<close>. \<open>Number(x) || 0\<close> is \<open>orZero\<close>; a mark price that is \<open>null\<close>,
  0 or \<open>NaN\<close> is replaced by the entry price.
\<close>

definition checkStopLossTakeProfit :: "statePosition \<Rightarrow> botConfig \<Rightarrow> slTpCheck option" where
  "checkStopLossTakeProfit pos config =
     (case risk config of
        None \<Rightarrow> None
      | Some r \<Rightarrow>
          if js_abs (orZero (positionAmt pos)) = Num 0 then None
          else
            let entry = orZero (entryPrice pos);
                mark = (case markPrice pos of
                          None \<Rightarrow> entry
                        | Some m \<Rightarrow> if m = Num 0 \<or> m = NaN then entry else m)
            in if entry = Num 0 \<or> mark = Num 0 then None
               else
                 let pnlPercent = js_mul (js_div (js_sub mark entry) entry) (Num 100);
                     isLong = js_gt (positionAmt pos) (Num 0);
                     actualPnl = (if isLong then pnlPercent else js_neg pnlPercent);
                     stopLoss = orDefault (stopLossPercent r) 1;
                     takeProfit = orDefault (takeProfitPercent r) (3 / 2)
                 in if js_le actualPnl (js_neg stopLoss)
                    then Some \<lparr>closeReason = ''STOP_LOSS'', closePnl = actualPnl\<rparr>
                    else if js_ge actualPnl takeProfit
                    then Some \<lparr>closeReason = ''TAKE_PROFIT'', closePnl = actualPnl\<rparr>
                    else None)"

text \<open>
  \<open>checkMaxLoss\<close> resets the daily accumulator in place, so the model returns the
  runtime with the verdict. \<open>Denied reason loss limit\<close> is \<open>{allowed: false, ...}\<close>.
\<close>

datatype lossCheck = Allowed | Denied string jsnum jsnum

fun allowed :: "lossCheck \<Rightarrow> bool" where
  "allowed Allowed = True"
| "allowed (Denied _ _ _) = False"

definition dayMs :: int where
  "dayMs = 24 * 60 * 60 * 1000"

definition checkMaxLoss ::
  "botRuntime \<Rightarrow> botConfig \<Rightarrow> jsnum \<Rightarrow> int \<Rightarrow> botRuntime \<times> lossCheck" where
  "checkMaxLoss rt config walletBalance now =
     (case risk config of
        None \<Rightarrow> (rt, Allowed)
      | Some r \<Rightarrow>
          let rt1 = (if now - dailyResetTime rt > dayMs
                     then rt\<lparr>dailyLoss := Num 0, dailyResetTime := now\<rparr> else rt);
              maxDailyPercent = orDefault (maxDailyLossPercent r) 5;
              maxTotalPercent = orDefault (maxTotalLossPercent r) 10;
              maxDailyUSDT = js_div (js_mul walletBalance maxDailyPercent) (Num 100);
              maxTotalUSDT = js_div (js_mul walletBalance maxTotalPercent) (Num 100)
          in if js_ge (dailyLoss rt1) maxDailyUSDT
             then (rt1, Denied ''MAX_DAILY_LOSS'' (dailyLoss rt1) maxDailyUSDT)
             else if js_ge (totalLoss rt1) maxTotalUSDT
             then (rt1, Denied ''MAX_TOTAL_LOSS'' (totalLoss rt1) maxTotalUSDT)
             else (rt1, Allowed))"

text \<open>
  \<open>checkCooldown\<close>. \<open>cooldown === 0\<close> holds exactly when the configured value is falsy,
  since a truthy number is not 0 and a string is never \<open>===\<close> a number.
\<close>

definition checkCooldown :: "botRuntime \<Rightarrow> botConfig \<Rightarrow> bool" where
  "checkCooldown rt config =
     (case position config of
        None \<Rightarrow> True
      | Some p \<Rightarrow>
          if \<not> truthy (cooldownCandles p) then True
          else
            let candlesSinceOrder = candleCount rt - lastOrderCandle rt
            in js_ge (Num (rat_of_int candlesSinceOrder)) (toNum (cooldownCandles p)))"

section \<open>Order execution: the virtual ledger\<close>

definition defaultLedger :: virtualLedger where
  "defaultLedger =
     \<lparr>initialQuoteBalance = Num 1000, currentQuoteBalance = Num 1000,
      currentBaseBalance = Num 0\<rparr>"

text \<open>The ledger a configuration holds, once a missing one is replaced by the default.\<close>

definition ledgerOf :: "botConfig \<Rightarrow> virtualLedger" where
  "ledgerOf config = (case virtualBalance config of None \<Rightarrow> defaultLedger | Some v \<Rightarrow> v)"

definition updateVirtualBalance :: "botConfig \<Rightarrow> string \<Rightarrow> jsnum \<Rightarrow> jsnum \<Rightarrow> botConfig" where
  "updateVirtualBalance config side q price =
     (let vb = ledgerOf config;
          vb' = (if side = ''BUY''
                 then vb\<lparr>currentQuoteBalance := js_sub (currentQuoteBalance vb) (js_mul q price),
                         currentBaseBalance := js_add (currentBaseBalance vb) q\<rparr>
                 else if side = ''SELL''
                 then vb\<lparr>currentQuoteBalance := js_add (currentQuoteBalance vb) (js_mul q price),
                         currentBaseBalance := js_sub (currentBaseBalance vb) q\<rparr>
                 else vb)
      in config\<lparr>virtualBalance := Some vb'\<rparr>)"

section \<open>One tick of the bot loop\<close>

subsection \<open>Failures, exchange answers and the store\<close>

text \<open>
  A thrown JavaScript error: its name, message and the \<open>response\<close> property that
  \<open>binanceRequest\<close> attaches (the body of the HTTP answer, kept here as its text).
\<close>

record jsError =
  errName :: string
  errMessage :: string
  errResponse :: "string option"

text \<open>The error \<open>binanceRequest\<close> throws for a non-success HTTP status.\<close>

definition apiError :: "string \<Rightarrow> string \<Rightarrow> jsError" where
  "apiError httpStatus body =
     \<lparr>errName = ''Error'',
      errMessage = ''Binance API error '' @ httpStatus @ '': '' @ body,
      errResponse = Some body\<rparr>"

text \<open>\<open>String(e)\<close> of an error object.\<close>

definition errString :: "jsError \<Rightarrow> string" where
  "errString e =
     (if errName e = [] then errMessage e
      else if errMessage e = [] then errName e
      else errName e @ '': '' @ errMessage e)"

text \<open>
  The first element of the \<open>positionRisk\<close> answer. Its fields are decimal texts; each is
  held as the rational it denotes, and \<open>Number\<close> makes the nearest double of it.
\<close>

record futuresPosition =
  posAmt :: rat
  posEntryPrice :: rat
  posMarkPrice :: rat
  posUnRealizedProfit :: rat

text \<open>
  What the outside world answers during one tick. An \<open>Inl\<close> or \<open>Some\<close> error is a call
  that throws: a rejected request, or an answer whose shape makes the code that reads it
  throw. \<open>klines\<close> holds \<open>Number(k[4])\<close> of each candle; \<open>futuresAccount\<close> holds the
  rational that the text \<open>totalWalletBalance\<close> denotes; \<open>placeOrder\<close> answers the one
  order a tick can send; \<open>upsertInTry\<close> and \<open>upsertInCatch\<close> answer the snapshot writes
  of the \<open>try\<close> and of the \<open>catch\<close> block.
\<close>

record tickEnv =
  getBotById :: "jsError + botConfig option"
  dateNow :: int
  klines :: "jsError + jsnum list"
  setLeverage :: "jsError option"
  futuresAccount :: "jsError + rat"
  positionRisk :: "jsError + futuresPosition option"
  spotAccount :: "jsError option"
  placeOrder :: "jsError option"
  upsertInTry :: "jsError option"
  updateBotWrite :: "jsError option"
  upsertInCatch :: "jsError option"

subsection \<open>Decisions, orders and snapshots\<close>

record decision =
  action :: string
  reason :: string
  qty :: jsnum
  decSignal :: "signal option"
  lastPrice :: "rat option"
  pnl :: "jsnum option"

record orderParams =
  side :: string
  orderType :: string
  quantity :: jsnum
  reduceOnly :: bool

datatype orderCall = FuturesOrder orderParams | SpotOrder orderParams

record marketData = signalResult +
  lastClose :: "rat option"

record stateError =
  message :: string
  response :: "string option"

text \<open>
  The \<open>state\<close> object of a tick. Its \<open>botId\<close>, \<open>updatedAt\<close>, \<open>config\<close> and \<open>account\<close>
  fields and the spot form of \<open>position\<close> are echoes that no decision reads; they are
  left out.
\<close>

record botState =
  ok :: bool
  status :: "string option"
  error :: "stateError option"
  stMarketData :: "marketData option"
  stPosition :: "statePosition option"
  stLastDecision :: "decision option"

text \<open>The row \<open>upsertBotState\<close> writes: of the error only \<open>error.message\<close> is stored.\<close>

record stateRow =
  rowOk :: bool
  rowStatus :: "string option"
  rowErrorMessage :: "string option"
  rowMarketData :: "marketData option"
  rowPosition :: "statePosition option"
  rowLastDecision :: "decision option"

definition stateToRow :: "botState \<Rightarrow> stateRow" where
  "stateToRow st =
     \<lparr>rowOk = ok st,
      rowStatus = status st,
      rowErrorMessage =
        (case error st of
           None \<Rightarrow> None
         | Some e \<Rightarrow> if message e = [] then None else Some (message e)),
      rowMarketData = stMarketData st,
      rowPosition = stPosition st,
      rowLastDecision = stLastDecision st\<rparr>"

text \<open>
  Everything a tick can change: the loop's \<open>botConfig\<close> object, its runtime counters and
  \<open>lastDecision\<close>, the tick's \<open>state\<close> and local \<open>decision\<close>, and three logs of its effects
  (orders sent to the exchange, rows written by \<open>upsertBotState\<close>, configurations
  written by \<open>updateBot\<close>).
\<close>

record loopState =
  config :: botConfig
  runtime :: botRuntime
  lastDecision :: "decision option"
  state :: botState
  tickDecision :: "decision option"
  orders :: "orderCall list"
  written :: "stateRow list"
  saved :: "botConfig list"

text \<open>
  A step of the \<open>try\<close> block returns the state it reached and the error it threw, if
  any; what was changed before a throw stays changed.
\<close>

type_synonym step = "jsError option \<times> loopState"

definition upsertBotState :: "jsError option \<Rightarrow> loopState \<Rightarrow> step" where
  "upsertBotState answer ls =
     (case answer of
        Some e \<Rightarrow> (Some e, ls)
      | None \<Rightarrow> (None, ls\<lparr>written := written ls @ [stateToRow (state ls)]\<rparr>))"

definition updateBot :: "jsError option \<Rightarrow> loopState \<Rightarrow> step" where
  "updateBot answer ls =
     (case answer of
        Some e \<Rightarrow> (Some e, ls)
      | None \<Rightarrow> (None, ls\<lparr>saved := saved ls @ [config ls]\<rparr>))"

text \<open>An order call: the request is sent, then the call throws or returns.\<close>

definition sendOrder :: "tickEnv \<Rightarrow> orderCall \<Rightarrow> loopState \<Rightarrow> step" where
  "sendOrder env call ls = (placeOrder env, ls\<lparr>orders := orders ls @ [call]\<rparr>)"

text \<open>Sequencing inside the \<open>try\<close> block: a thrown error skips what follows.\<close>

fun andThen :: "step \<Rightarrow> (loopState \<Rightarrow> step) \<Rightarrow> step" where
  "andThen (Some e, ls) f = (Some e, ls)"
| "andThen (None, ls) f = f ls"

definition lastOf :: "rat list \<Rightarrow> rat option" where
  "lastOf xs = (if xs = [] then None else Some (last xs))"

text \<open>
  The end of a tick that was neither disabled nor blocked: record the decision, set
  \<open>RUNNING\<close>, write the snapshot, and save the configuration of a dry-run bot.
\<close>

definition finishTick :: "tickEnv \<Rightarrow> loopState \<Rightarrow> step" where
  "finishTick env ls =
     (let ls1 = ls\<lparr>lastDecision := tickDecision ls,
                    state := (state ls)\<lparr>stLastDecision := tickDecision ls,
                                       status := Some ''RUNNING''\<rparr>\<rparr>
      in andThen (upsertBotState (upsertInTry env) ls1)
           (\<lambda>ls2. if dryRun (config ls2) \<and> virtualBalance (config ls2) \<noteq> None
                  then updateBot (updateBotWrite env) ls2
                  else (None, ls2)))"

subsection \<open>The futures branch\<close>

text \<open>
  The message of a blocked tick is a Korean sentence around the reason and the two
  amounts; it is represented by an English prefix and the reason.
\<close>

definition blockedMessage :: "string \<Rightarrow> string" where
  "blockedMessage r = ''max loss reached: '' @ r"

definition futuresClose ::
  "tickEnv \<Rightarrow> jsnum \<Rightarrow> jsnum option \<Rightarrow> slTpCheck \<Rightarrow> loopState \<Rightarrow> step" where
  "futuresClose env amt unrealized chk ls =
     (let closeSide = (if js_gt amt (Num 0) then ''SELL'' else ''BUY'');
          closeQty = js_abs amt;
          d = \<lparr>action = (if dryRun (config ls) then ''DRY_CLOSE_'' else ''CLOSE_'') @ closeReason chk,
               reason = closeReason chk, qty = closeQty, decSignal = None,
               lastPrice = None, pnl = Some (closePnl chk)\<rparr>;
          ls1 = ls\<lparr>tickDecision := Some d\<rparr>
      in andThen
           (if dryRun (config ls) then (None, ls1)
            else sendOrder env
                   (FuturesOrder \<lparr>side = closeSide, orderType = ''MARKET'',
                                  quantity = closeQty, reduceOnly = True\<rparr>) ls1)
           (\<lambda>ls2.
              let rt1 = (runtime ls2)\<lparr>lastOrderCandle := candleCount (runtime ls2)\<rparr>;
                  lossUSDT = js_abs (case unrealized of None \<Rightarrow> Num 0 | Some u \<Rightarrow> orZero u);
                  rt2 = (if js_lt (closePnl chk) (Num 0)
                         then rt1\<lparr>dailyLoss := js_add (dailyLoss rt1) lossUSDT,
                                  totalLoss := js_add (totalLoss rt1) lossUSDT\<rparr>
                         else rt1)
              in (None, ls2\<lparr>runtime := rt2\<rparr>)))"

definition placeFuturesEntry :: "tickEnv \<Rightarrow> string \<Rightarrow> jsnum \<Rightarrow> signal \<Rightarrow> loopState \<Rightarrow> step" where
  "placeFuturesEntry env sd q sig ls =
     (let d = \<lparr>action = (if dryRun (config ls) then ''DRY_'' @ sd else sd),
               reason = ''MA_CROSS'', qty = q, decSignal = Some sig,
               lastPrice = None, pnl = None\<rparr>;
          ls1 = ls\<lparr>tickDecision := Some d\<rparr>
      in andThen
           (if dryRun (config ls) then (None, ls1)
            else sendOrder env
                   (FuturesOrder \<lparr>side = sd, orderType = ''MARKET'',
                                  quantity = q, reduceOnly = False\<rparr>) ls1)
           (\<lambda>ls2. (None, ls2\<lparr>runtime := (runtime ls2)\<lparr>lastOrderCandle :=
                                                          candleCount (runtime ls2)\<rparr>\<rparr>)))"

text \<open>The number literal \<open>0.0001\<close>: the double nearest to one ten-thousandth.\<close>

definition defaultStep :: rat where
  "defaultStep = 7378697629483821 / 73786976294838206464"

text \<open>The order quantity: the configured amount over the last close, rounded down to the step.\<close>

definition orderQty :: "botConfig \<Rightarrow> rat option \<Rightarrow> jsnum" where
  "orderQty cfg price =
     (let quoteAmount = max 0 (toNumber (riskField orderQuoteAmount cfg) 20);
          rawQty = (case price of
                      Some p \<Rightarrow> if p > 0 then js_div (Num quoteAmount) (Num p) else Num 0
                    | None \<Rightarrow> Num 0)
      in roundStep rawQty (toNumber (riskField quantityStep cfg) defaultStep))"

text \<open>\<open>qtyValid\<close>: with no close at all the notional is \<open>NaN\<close> and the test fails.\<close>

definition qtyValid :: "botConfig \<Rightarrow> rat option \<Rightarrow> bool" where
  "qtyValid cfg price =
     (let q = orderQty cfg price;
          minQty = toNumber (riskField quantityStep cfg) defaultStep;
          minNotional = 5;
          notionalValue = js_mul q (case price of Some p \<Rightarrow> Num p | None \<Rightarrow> NaN)
      in js_ge q (Num minQty) \<and> js_ge notionalValue (Num minNotional))"

definition preventDuplicate :: "botConfig \<Rightarrow> bool" where
  "preventDuplicate cfg =
     (case position cfg of
        None \<Rightarrow> True
      | Some p \<Rightarrow> (case preventDuplicateOrders p of None \<Rightarrow> True | Some b \<Rightarrow> b))"

definition futuresEntry :: "tickEnv \<Rightarrow> signal \<Rightarrow> rat list \<Rightarrow> jsnum \<Rightarrow> loopState \<Rightarrow> step" where
  "futuresEntry env sig closes amt ls =
     (let cfg = config ls;
          price = lastOf closes;
          q = orderQty cfg price;
          d = \<lparr>action = ''NONE'', reason = ''HOLD'', qty = q, decSignal = Some sig,
               lastPrice = price, pnl = None\<rparr>;
          hasPosition = js_gt (js_abs amt) (Num 0);
          canOrder = (\<not> hasPosition \<or> \<not> preventDuplicate cfg);
          cooldownOk = checkCooldown (runtime ls) cfg
      in if qtyValid cfg price \<and> canOrder \<and> cooldownOk then
           if sig = LONG \<and> js_le amt (Num 0) then placeFuturesEntry env ''BUY'' q sig ls
           else if sig = SHORT \<and> js_ge amt (Num 0) then placeFuturesEntry env ''SELL'' q sig ls
           else (None, ls\<lparr>tickDecision := Some d\<rparr>)
         else if \<not> qtyValid cfg price
         then (None, ls\<lparr>tickDecision := Some (d\<lparr>reason := ''QTY_INVALID''\<rparr>)\<rparr>)
         else if \<not> cooldownOk
         then (None, ls\<lparr>tickDecision := Some (d\<lparr>reason := ''COOLDOWN''\<rparr>)\<rparr>)
         else if hasPosition \<and> preventDuplicate cfg
         then (None, ls\<lparr>tickDecision := Some (d\<lparr>reason := ''POSITION_EXISTS''\<rparr>)\<rparr>)
         else (None, ls\<lparr>tickDecision := Some d\<rparr>))"

text \<open>The checks of a futures tick, once the account and the position are fetched.\<close>

definition toStatePosition :: "futuresPosition option \<Rightarrow> statePosition" where
  "toStatePosition pos =
     \<lparr>positionAmt = (case pos of Some p \<Rightarrow> fl (posAmt p) | None \<Rightarrow> Num 0),
      entryPrice = (case pos of Some p \<Rightarrow> fl (posEntryPrice p) | None \<Rightarrow> Num 0),
      markPrice = map_option (\<lambda>p. fl (posMarkPrice p)) pos,
      unrealizedProfit = map_option (\<lambda>p. fl (posUnRealizedProfit p)) pos\<rparr>"

definition futuresAct :: "tickEnv \<Rightarrow> signal \<Rightarrow> rat list \<Rightarrow> statePosition \<Rightarrow> loopState \<Rightarrow> step" where
  "futuresAct env sig closes sp ls =
     (case checkStopLossTakeProfit sp (config ls) of
        Some c \<Rightarrow>
          if js_gt (js_abs (positionAmt sp)) (Num 0)
          then futuresClose env (positionAmt sp) (unrealizedProfit sp) c ls
          else futuresEntry env sig closes (positionAmt sp) ls
      | None \<Rightarrow> futuresEntry env sig closes (positionAmt sp) ls)"

text \<open>\<open>walletBalance\<close> is \<open>Number(account.totalWalletBalance)\<close>.\<close>

definition futuresDecide ::
  "tickEnv \<Rightarrow> signal \<Rightarrow> rat list \<Rightarrow> rat \<Rightarrow> futuresPosition option \<Rightarrow> loopState \<Rightarrow> step" where
  "futuresDecide env sig closes w pos ls =
     (let sp = toStatePosition pos;
          walletBalance = fl w;
          ls1 = ls\<lparr>state := (state ls)\<lparr>stPosition := Some sp\<rparr>\<rparr>;
          chk = checkMaxLoss (runtime ls1) (config ls1) walletBalance (dateNow env);
          ls2 = ls1\<lparr>runtime := fst chk\<rparr>
      in case snd chk of
           Denied r loss limit \<Rightarrow>
             upsertBotState (upsertInTry env)
               (ls2\<lparr>state := (state ls2)\<lparr>status := Some ''BLOCKED'',
                              error := Some \<lparr>message = blockedMessage r, response = None\<rparr>\<rparr>\<rparr>)
         | Allowed \<Rightarrow> andThen (futuresAct env sig closes sp ls2) (finishTick env))"

text \<open>
  The three signed calls that open the futures branch. The leverage sent, the configured
  one clamped to 1..125, has no part in what follows and is not modelled.
\<close>

definition futuresBranch :: "tickEnv \<Rightarrow> signal \<Rightarrow> rat list \<Rightarrow> loopState \<Rightarrow> step" where
  "futuresBranch env sig closes ls =
     (case setLeverage env of
        Some e \<Rightarrow> (Some e, ls)
      | None \<Rightarrow>
          (case futuresAccount env of
             Inl e \<Rightarrow> (Some e, ls)
           | Inr walletBalance \<Rightarrow>
               (case positionRisk env of
                  Inl e \<Rightarrow> (Some e, ls)
                | Inr pos \<Rightarrow> futuresDecide env sig closes walletBalance pos ls)))"

subsection \<open>The spot branch\<close>

definition spotTrade :: "tickEnv \<Rightarrow> string \<Rightarrow> jsnum \<Rightarrow> rat option \<Rightarrow> signal \<Rightarrow> loopState \<Rightarrow> step" where
  "spotTrade env sd q price sig ls =
     (let d = \<lparr>action = (if dryRun (config ls) then ''DRY_'' @ sd else sd),
               reason = ''MA_CROSS'', qty = q, decSignal = Some sig,
               lastPrice = None, pnl = None\<rparr>;
          ls1 = ls\<lparr>tickDecision := Some d\<rparr>
      in if dryRun (config ls)
         then (None, ls1\<lparr>config := updateVirtualBalance (config ls1) sd q
                                      (case price of Some p \<Rightarrow> Num p | None \<Rightarrow> NaN)\<rparr>)
         else sendOrder env
                (SpotOrder \<lparr>side = sd, orderType = ''MARKET'', quantity = q, reduceOnly = False\<rparr>) ls1)"

definition spotBranch :: "tickEnv \<Rightarrow> signal \<Rightarrow> rat list \<Rightarrow> loopState \<Rightarrow> step" where
  "spotBranch env sig closes ls =
     (let price = lastOf closes
      in andThen
           (if dryRun (config ls)
            then (None, if virtualBalance (config ls) = None
                        then ls\<lparr>config := (config ls)\<lparr>virtualBalance := Some defaultLedger\<rparr>\<rparr>
                        else ls)
            else (spotAccount env, ls))
           (\<lambda>ls1.
              let q = orderQty (config ls1) price;
                  d = \<lparr>action = ''NONE'', reason = ''HOLD'', qty = q, decSignal = Some sig,
                       lastPrice = price, pnl = None\<rparr>
              in andThen
                   (if js_gt q (Num 0) then
                      if sig = LONG then spotTrade env ''BUY'' q price sig ls1
                      else if sig = SHORT then spotTrade env ''SELL'' q price sig ls1
                      else (None, ls1\<lparr>tickDecision := Some d\<rparr>)
                    else (None, ls1\<lparr>tickDecision := Some d\<rparr>))
                   (finishTick env)))"

subsection \<open>The loop body\<close>

text \<open>
  The moving-average windows as the loop sanitizes them: \<open>Math.max(1, toNumber(fastPeriod, 9))\<close>
  and \<open>Math.max(fastPeriod + 1, toNumber(slowPeriod, 21))\<close>.
\<close>

definition effectivePeriods :: "botConfig \<Rightarrow> jsnum \<times> jsnum" where
  "effectivePeriods cfg =
     (let fastP = Num (max 1 (toNumber (strategyField fastPeriod cfg) 9));
          slowP = js_max (js_add fastP (Num 1)) (Num (toNumber (strategyField slowPeriod cfg) 21))
      in (fastP, slowP))"

text \<open>\<open>klines.map((k) => Number(k[4])).filter((n) => Number.isFinite(n))\<close>.\<close>

definition finiteCloses :: "jsnum list \<Rightarrow> rat list" where
  "finiteCloses ks = concat (map (\<lambda>k. case k of Num r \<Rightarrow> [r] | _ \<Rightarrow> []) ks)"

text \<open>\<open>runtime.candleCount++\<close>.\<close>

definition countCandle :: "loopState \<Rightarrow> loopState" where
  "countCandle ls = ls\<lparr>runtime := (runtime ls)\<lparr>candleCount := candleCount (runtime ls) + 1\<rparr>\<rparr>"

text \<open>The signal of the fetched closes, computed with the sanitized windows.\<close>

definition tickSignal :: "botConfig \<Rightarrow> rat list \<Rightarrow> signalResult" where
  "tickSignal cfg closes =
     computeSignal closes (fst (effectivePeriods cfg)) (snd (effectivePeriods cfg))"

text \<open>\<open>state.marketData = {lastClose, fast, slow, signal}\<close>.\<close>

definition marketDataOf :: "signalResult \<Rightarrow> rat option \<Rightarrow> marketData" where
  "marketDataOf sr c = \<lparr>signal = signal sr, fast = fast sr, slow = slow sr, lastClose = c\<rparr>"

definition recordMarketData :: "rat list \<Rightarrow> loopState \<Rightarrow> loopState" where
  "recordMarketData closes ls =
     ls\<lparr>state := (state ls)\<lparr>stMarketData :=
            Some (marketDataOf (tickSignal (config ls) closes) (lastOf closes))\<rparr>\<rparr>"

definition tryBody :: "tickEnv \<Rightarrow> loopState \<Rightarrow> step" where
  "tryBody env ls =
     (if \<not> enabled (config ls)
      then upsertBotState (upsertInTry env)
             (ls\<lparr>state := (state ls)\<lparr>status := Some ''DISABLED''\<rparr>\<rparr>)
      else
        case klines env of
          Inl e \<Rightarrow> (Some e, countCandle ls)
        | Inr ks \<Rightarrow>
            let closes = finiteCloses ks;
                sig = signal (tickSignal (config ls) closes);
                ls2 = recordMarketData closes (countCandle ls)
            in if market (config ls) = ''futures''
               then futuresBranch env sig closes ls2
               else spotBranch env sig closes ls2)"

text \<open>
  One iteration of \<open>while (true)\<close>. The configuration is refreshed from the store outside
  the \<open>try\<close>; the \<open>catch\<close> writes an \<open>ERROR\<close> snapshot. An error thrown outside the \<open>try\<close>
  or inside the \<open>catch\<close> leaves \<open>runBot\<close>: the loop is over (\<open>Crashed\<close>, with the error and
  the state the loop had reached). The pacing sleeps are not modelled.
\<close>

datatype tickOutcome = Crashed jsError loopState | Next loopState

definition freshState :: "decision option \<Rightarrow> botState" where
  "freshState d =
     \<lparr>ok = True, status = None, error = None, stMarketData = None, stPosition = None,
      stLastDecision = d\<rparr>"

definition catchError :: "jsError \<Rightarrow> botState \<Rightarrow> botState" where
  "catchError e st =
     st\<lparr>ok := False, status := Some ''ERROR'',
        error := Some \<lparr>message = (if errMessage e = [] then errString e else errMessage e),
                       response = errResponse e\<rparr>\<rparr>"

fun endOfTick :: "step \<Rightarrow> tickOutcome" where
  "endOfTick (Some e, ls) = Crashed e ls"
| "endOfTick (None, ls) = Next ls"

fun catchBlock :: "tickEnv \<Rightarrow> step \<Rightarrow> tickOutcome" where
  "catchBlock env (None, ls) = Next ls"
| "catchBlock env (Some e, ls) =
     endOfTick (upsertBotState (upsertInCatch env) (ls\<lparr>state := catchError e (state ls)\<rparr>))"

text \<open>
  The top of an iteration: the loop's configuration object takes every field of the
  stored one (it stays as it is when the store has none), and a new \<open>state\<close> is made.
\<close>

definition refresh :: "botConfig option \<Rightarrow> loopState \<Rightarrow> loopState" where
  "refresh updatedBot ls =
     ls\<lparr>config := (case updatedBot of Some b \<Rightarrow> b | None \<Rightarrow> config ls),
        tickDecision := None,
        state := freshState (lastDecision ls)\<rparr>"

definition runBotTick :: "tickEnv \<Rightarrow> loopState \<Rightarrow> tickOutcome" where
  "runBotTick env ls =
     (case getBotById env of
        Inl e \<Rightarrow> Crashed e ls
      | Inr updatedBot \<Rightarrow> catchBlock env (tryBody env (refresh updatedBot ls)))"

text \<open>The loop over the answers of successive ticks; it stops only when a tick crashes.\<close>

fun runBot :: "loopState \<Rightarrow> tickEnv list \<Rightarrow> tickOutcome" where
  "runBot ls [] = Next ls"
| "runBot ls (env # envs) =
     (case runBotTick env ls of
        Crashed e ls' \<Rightarrow> Crashed e ls'
      | Next ls' \<Rightarrow> runBot ls' envs)"

text \<open>The state in which \<open>runBot\<close> enters its loop.\<close>

definition startLoop :: "botConfig \<Rightarrow> botRuntime \<Rightarrow> loopState" where
  "startLoop botConfig rt =
     \<lparr>config = botConfig, runtime = rt, lastDecision = None, state = freshState None,
      tickDecision = None, orders = [], written = [], saved = []\<rparr>"

section \<open>Scheduler\<close>

record credentials =
  testnetApiKey :: "string option"
  testnetApiSecret :: "string option"
  mainnetApiKey :: "string option"
  mainnetApiSecret :: "string option"

text \<open>A call of \<open>runBot\<close> that the scheduler made and that has not returned.\<close>

record loopStart =
  startConfig :: botConfig
  startKey :: string
  startSecret :: string

text \<open>
  \<open>runningBots\<close> is the scheduler's map (its keys, in insertion order); \<open>loops\<close> are the
  calls of \<open>runBot\<close> that are executing. \<open>syncBots\<close> has no access to a started loop
  other than through \<open>runningBots\<close>.
\<close>

record scheduler =
  runningBots :: "string list"
  loops :: "loopStart list"

definition startIfNew :: "credentials \<Rightarrow> scheduler \<Rightarrow> botConfig \<Rightarrow> scheduler" where
  "startIfNew creds sch b =
     (if botId b \<in> set (runningBots sch) then sch
      else
        let apiKey = (if useTestnet b then testnetApiKey creds else mainnetApiKey creds);
            apiSecret = (if useTestnet b then testnetApiSecret creds else mainnetApiSecret creds)
        in case (apiKey, apiSecret) of
             (Some k, Some sec) \<Rightarrow>
               if k = [] \<or> sec = [] then sch
               else sch\<lparr>runningBots := runningBots sch @ [botId b],
                        loops := loops sch @ [\<lparr>startConfig = b, startKey = k, startSecret = sec\<rparr>]\<rparr>
           | _ \<Rightarrow> sch)"

definition syncBots :: "credentials \<Rightarrow> botConfig list \<Rightarrow> scheduler \<Rightarrow> scheduler" where
  "syncBots creds bots sch =
     (let sch1 = foldl (startIfNew creds) sch bots;
          currentIds = map botId bots
      in sch1\<lparr>runningBots := filter (\<lambda>i. i \<in> set currentIds) (runningBots sch1)\<rparr>)"

text \<open>The \<open>catch\<close> handler attached to a started loop: it runs when that loop crashes.\<close>

definition loopCrashed :: "string \<Rightarrow> scheduler \<Rightarrow> scheduler" where
  "loopCrashed bid sch =
     sch\<lparr>runningBots := removeAll bid (runningBots sch),
         loops := (case filter (\<lambda>l. botId (startConfig l) = bid) (loops sch) of
                     [] \<Rightarrow> loops sch
                   | l # _ \<Rightarrow> remove1 l (loops sch))\<rparr>"

text \<open>The bot ids of the executing loops.\<close>

definition loopIds :: "scheduler \<Rightarrow> string list" where
  "loopIds sch = map (\<lambda>l. botId (startConfig l)) (loops sch)"

section \<open>Notions used in the statements\<close>

text \<open>The snapshot row the store holds after a tick: the last one written.\<close>

definition snapshot :: "loopState \<Rightarrow> stateRow option" where
  "snapshot ls = (if written ls = [] then None else Some (last (written ls)))"

text \<open>
  The state in which a tick enters its market branch: configuration refreshed, candle
  counted, market data recorded.
\<close>

definition entered :: "botConfig option \<Rightarrow> jsnum list \<Rightarrow> loopState \<Rightarrow> loopState" where
  "entered ub ks ls = recordMarketData (finiteCloses ks) (countCandle (refresh ub ls))"

text \<open>
  The mean of the last \<open>n\<close> samples of a series, as the specification words it (in exact
  arithmetic), and as doubles give it: the samples added from 0, left to right, each sum
  rounded, and the total divided by \<open>n\<close> and rounded.
\<close>

definition trailing_mean :: "nat \<Rightarrow> rat list \<Rightarrow> rat" where
  "trailing_mean n xs = sum_list (drop (length xs - n) xs) / rat_of_nat n"

definition roundedMean :: "nat \<Rightarrow> rat list \<Rightarrow> jsnum" where
  "roundedMean n xs =
     js_div (foldl (\<lambda>a b. js_add a (Num b)) (Num 0) (drop (length xs - n) xs))
            (Num (rat_of_nat n))"

text \<open>The daily accumulator as the loss breaker reads it: zero once a day has passed.\<close>

definition dailyLossAt :: "int \<Rightarrow> botRuntime \<Rightarrow> jsnum" where
  "dailyLossAt now rt = (if now - dailyResetTime rt > dayMs then Num 0 else dailyLoss rt)"

text \<open>
  The loss limit for the wallet balance \<open>w\<close> as the exchange states it and the configured
  percentage \<open>v\<close> (\<open>dflt\<close> when that is 0 or absent): the percentage of the balance, the
  product and the quotient each rounded to a double.
\<close>

definition lossLimit :: "rat \<Rightarrow> jsval \<Rightarrow> rat \<Rightarrow> jsnum" where
  "lossLimit w v dflt = js_div (js_mul (fl w) (orDefault v dflt)) (Num 100)"

text \<open>An accumulator has reached its limit.\<close>

definition lossLimitReached :: "botRuntime \<Rightarrow> rat \<Rightarrow> riskConfig \<Rightarrow> int \<Rightarrow> bool" where
  "lossLimitReached rt w r now =
     (js_ge (dailyLossAt now rt) (lossLimit w (maxDailyLossPercent r) 5) \<or>
      js_ge (totalLoss rt) (lossLimit w (maxTotalLossPercent r) 10))"

text \<open>
  The unrealized profit of a position in percent of its entry price, negated for a short
  position, as the specification words it: in exact arithmetic on the prices that the
  exchange states.
\<close>

definition positionPnl :: "futuresPosition \<Rightarrow> rat" where
  "positionPnl p =
     (if posAmt p > 0 then (posMarkPrice p - posEntryPrice p) / posEntryPrice p * 100
      else - ((posMarkPrice p - posEntryPrice p) / posEntryPrice p * 100))"

text \<open>
  The same profit as the doubles give it: \<open>((mark - entry) / entry) * 100\<close> on the prices
  that \<open>Number\<close> read, every operation rounded.
\<close>

definition roundedPnl :: "futuresPosition \<Rightarrow> jsnum" where
  "roundedPnl p =
     (let pct = js_mul (js_div (js_sub (fl (posMarkPrice p)) (fl (posEntryPrice p)))
                               (fl (posEntryPrice p))) (Num 100)
      in if js_gt (fl (posAmt p)) (Num 0) then pct else js_neg pct)"

text \<open>The decision and the order of a forced close of the whole position.\<close>

definition closeDecision :: "bool \<Rightarrow> string \<Rightarrow> futuresPosition \<Rightarrow> decision" where
  "closeDecision dry why p =
     \<lparr>action = (if dry then ''DRY_CLOSE_'' else ''CLOSE_'') @ why, reason = why,
      qty = js_abs (fl (posAmt p)), decSignal = None, lastPrice = None,
      pnl = Some (roundedPnl p)\<rparr>"

definition closeOrder :: "futuresPosition \<Rightarrow> orderCall" where
  "closeOrder p =
     FuturesOrder \<lparr>side = (if js_gt (fl (posAmt p)) (Num 0) then ''SELL'' else ''BUY''),
                   orderType = ''MARKET'', quantity = js_abs (fl (posAmt p)), reduceOnly = True\<rparr>"

definition entryOrder :: "string \<Rightarrow> jsnum \<Rightarrow> orderCall" where
  "entryOrder sd q =
     FuturesOrder \<lparr>side = sd, orderType = ''MARKET'', quantity = q, reduceOnly = False\<rparr>"

fun isReduceOnly :: "orderCall \<Rightarrow> bool" where
  "isReduceOnly (FuturesOrder ps) = reduceOnly ps"
| "isReduceOnly (SpotOrder ps) = reduceOnly ps"


text \<open>The state of the loop when a tick is over, whether or not the loop goes on.\<close>

fun stateAfter :: "tickOutcome \<Rightarrow> loopState" where
  "stateAfter (Next ls) = ls"
| "stateAfter (Crashed e ls) = ls"


section \<open>Example inputs\<close>

text \<open>The double that a decimal literal denotes, as a rational (0 if it is out of range).\<close>

definition nearest :: "rat \<Rightarrow> rat" where
  "nearest x = (case fl x of Num r \<Rightarrow> r | _ \<Rightarrow> 0)"

text \<open>
  \<open>defaultBotConfig(id, name)\<close>, the configuration of a newly created bot. The literal
  \<open>0.0001\<close> is the double nearest to that number.
\<close>

definition defaultBotConfig :: "string \<Rightarrow> botConfig" where
  "defaultBotConfig bid =
     \<lparr>botId = bid, enabled = False, market = ''spot'', useTestnet = True, dryRun = True,
      strategy = Some \<lparr>fastPeriod = JNumber (Num 9), slowPeriod = JNumber (Num 21)\<rparr>,
      risk = Some \<lparr>orderQuoteAmount = JNumber (Num 20), leverage = JNumber (Num 3),
                    quantityStep = JNumber (fl (1 / 10000)),
                    stopLossPercent = JNumber (Num 1),
                    takeProfitPercent = JNumber (Num (3 / 2)),
                    maxDailyLossPercent = JNumber (Num 5),
                    maxTotalLossPercent = JNumber (Num 10)\<rparr>,
      position = Some \<lparr>preventDuplicateOrders = Some True, cooldownCandles = JNumber (Num 3)\<rparr>,
      virtualBalance = Some defaultLedger\<rparr>"

text \<open>
  An enabled live futures bot and an enabled live spot bot, both with windows 2 and 3 and
  otherwise the default settings.
\<close>

definition futuresBot :: botConfig where
  "futuresBot =
     (defaultBotConfig ''bot-1'')
       \<lparr>enabled := True, market := ''futures'', dryRun := False,
        strategy := Some \<lparr>fastPeriod = JNumber (Num 2), slowPeriod = JNumber (Num 3)\<rparr>,
        virtualBalance := None\<rparr>"

definition spotBot :: botConfig where
  "spotBot = futuresBot\<lparr>market := ''spot''\<rparr>"

text \<open>
  A tick in which every call succeeds: closes \<open>[1, 2, 3, 100]\<close> (signal \<open>LONG\<close> for windows
  2 and 3), a wallet of 1000 and no open position. The store holds \<open>bot\<close>.
\<close>

definition calmTick :: "botConfig option \<Rightarrow> tickEnv" where
  "calmTick b =
     \<lparr>getBotById = Inr b, dateNow = 1000,
      klines = Inr [Num 1, Num 2, Num 3, Num 100],
      setLeverage = None, futuresAccount = Inr 1000, positionRisk = Inr None,
      spotAccount = None, placeOrder = None,
      upsertInTry = None, updateBotWrite = None, upsertInCatch = None\<rparr>"

text \<open>
  The quantity these bots order at the last close of 100: the double written \<open>0.2\<close>
  (\<open>20 / 100\<close>, which the step \<open>0.0001\<close> leaves as it is).
\<close>

definition fifth :: jsnum where
  "fifth = fl (1 / 5)"

text \<open>A long position of 2 units entered at 100, seen at the given mark price.\<close>

definition longAt :: "rat \<Rightarrow> futuresPosition" where
  "longAt m =
     \<lparr>posAmt = 2, posEntryPrice = 100, posMarkPrice = m,
      posUnRealizedProfit = 2 * (m - 100)\<rparr>"

text \<open>The counters of a loop at tick \<open>n\<close> whose last order was placed at tick \<open>k\<close>.\<close>

definition countersAt :: "int \<Rightarrow> int \<Rightarrow> botRuntime" where
  "countersAt n k =
     \<lparr>lastOrderCandle = k, candleCount = n, dailyLoss = Num 0, totalLoss = Num 0,
      dailyResetTime = 0\<rparr>"

text \<open>The calm tick of the futures bot with an open position.\<close>

definition tickWithPosition :: "futuresPosition \<Rightarrow> tickEnv" where
  "tickWithPosition p = (calmTick (Some futuresBot))\<lparr>positionRisk := Inr (Some p)\<rparr>"

text \<open>
  Counters of a loop, not yet ticked, whose two loss accumulators stand at the double
  nearest to \<open>x\<close>.
\<close>

definition lossesAt :: "rat \<Rightarrow> botRuntime" where
  "lossesAt x = (countersAt 0 0)\<lparr>dailyLoss := fl x, totalLoss := fl x\<rparr>"

text \<open>The futures bot with the daily loss limit set to 0 percent.\<close>

definition zeroLimitBot :: botConfig where
  "zeroLimitBot =
     futuresBot
       \<lparr>risk := Some \<lparr>orderQuoteAmount = JNumber (Num 20), leverage = JNumber (Num 3),
                       quantityStep = JNumber (fl (1 / 10000)),
                       stopLossPercent = JNumber (Num 1),
                       takeProfitPercent = JNumber (Num (3 / 2)),
                       maxDailyLossPercent = JNumber (Num 0),
                       maxTotalLossPercent = JNumber (Num 10)\<rparr>\<rparr>"

text \<open>The futures bot in dry-run mode, with the default virtual ledger.\<close>

definition dryFuturesBot :: botConfig where
  "dryFuturesBot = futuresBot\<lparr>dryRun := True, virtualBalance := Some defaultLedger\<rparr>"

text \<open>The spot bot in dry-run mode, with the default virtual ledger.\<close>

definition drySpotBot :: botConfig where
  "drySpotBot = spotBot\<lparr>dryRun := True, virtualBalance := Some defaultLedger\<rparr>"

text \<open>A long position of 1 unit entered at 3 and seen at a mark price of 2.97.\<close>

definition threeLong :: futuresPosition where
  "threeLong =
     \<lparr>posAmt = 1, posEntryPrice = 3, posMarkPrice = 297 / 100,
      posUnRealizedProfit = - (3 / 100)\<rparr>"

text \<open>The calm tick of the futures bot with a wallet balance of 120.18.\<close>

definition smallWalletTick :: tickEnv where
  "smallWalletTick = (calmTick (Some futuresBot))\<lparr>futuresAccount := Inr (6009 / 50)\<rparr>"

text \<open>A ledger of 1000 quote units and 0.3 base units, and the configuration holding it.\<close>

definition threeTenths :: botConfig where
  "threeTenths =
     (defaultBotConfig ''bot-1'')
       \<lparr>virtualBalance :=
          Some \<lparr>initialQuoteBalance = Num 1000, currentQuoteBalance = Num 1000,
                currentBaseBalance = fl (3 / 10)\<rparr>\<rparr>"

text \<open>The error of a store that refuses a write.\<close>

definition storeError :: jsError where
  "storeError =
     \<lparr>errName = ''SqliteError'', errMessage = ''FOREIGN KEY constraint failed'',
      errResponse = None\<rparr>"



text \<open>A process that has testnet keys only, and a scheduler that has started nothing.\<close>

definition testnetOnly :: credentials where
  "testnetOnly =
     \<lparr>testnetApiKey = Some ''key'', testnetApiSecret = Some ''secret'',
      mainnetApiKey = None, mainnetApiSecret = None\<rparr>"

definition idle :: scheduler where
  "idle = \<lparr>runningBots = [], loops = []\<rparr>"

definition firstLoop :: loopStart where
  "firstLoop = \<lparr>startConfig = futuresBot, startKey = ''key'', startSecret = ''secret''\<rparr>"

section \<open>Properties of the rounding\<close>

lemma pow2_powi: "pow2 e = 2 powi e"
  by (simp add: pow2_def power_int_def power_one_over inverse_eq_divide)

lemma pow2_pos: "0 < pow2 e"
  by (simp add: pow2_powi zero_less_power_int)

lemma pow2_add1: "pow2 (e + 1) = 2 * pow2 e"
  by (simp add: pow2_powi power_int_add_1')

lemma pow2_sub1: "pow2 (e - 1) = pow2 e / 2"
  using pow2_add1 [of "e - 1"] by simp

lemma pow2_mono: "a \<le> b \<Longrightarrow> pow2 a \<le> pow2 b"
  by (simp add: pow2_powi power_int_increasing)

lemma pow2_strict_mono: "a < b \<Longrightarrow> pow2 a < pow2 b"
  by (simp add: pow2_powi power_int_strict_increasing)

lemma pow2_nat: "0 \<le> e \<Longrightarrow> pow2 e = 2 ^ nat e"
  by (simp add: pow2_def)

lemma flog2_bounds:
  "0 < x \<Longrightarrow> pow2 (flog2 x) \<le> x \<and> x < pow2 (flog2 x + 1)"
proof (induction x rule: flog2.induct)
  case (1 x)
  show ?case
  proof (cases "2 \<le> x")
    case True
    then have eq: "flog2 x = flog2 (x / 2) + 1" using 1(3) by (subst flog2.simps) simp
    from 1(1) [OF _ True] 1(3) True
    have "pow2 (flog2 (x / 2)) \<le> x / 2 \<and> x / 2 < pow2 (flog2 (x / 2) + 1)" by simp
    then show ?thesis unfolding eq pow2_add1 by simp
  next
    case False
    show ?thesis
    proof (cases "x < 1")
      case True
      then have eq: "flog2 x = flog2 (x * 2) - 1" using 1(3) False by (subst flog2.simps) simp
      from 1(2) [OF _ False True] 1(3)
      have "pow2 (flog2 (x * 2)) \<le> x * 2 \<and> x * 2 < pow2 (flog2 (x * 2) + 1)" by simp
      then show ?thesis unfolding eq using pow2_sub1 [of "flog2 (x * 2)"] pow2_add1 [of "flog2 (x * 2)"]
        by simp
    next
      case b: False
      then have "flog2 x = 0" using 1(3) False by (subst flog2.simps) simp
      then show ?thesis using False b by (simp add: pow2_def)
    qed
  qed
qed

lemma flog2_unique:
  assumes "pow2 k \<le> x" and "x < pow2 (k + 1)"
  shows "flog2 x = k"
proof -
  have pos: "0 < x" using assms(1) pow2_pos [of k] by simp
  from flog2_bounds [OF pos]
  have b: "pow2 (flog2 x) \<le> x" "x < pow2 (flog2 x + 1)" by simp_all
  have "pow2 k < pow2 (flog2 x + 1)" using assms(1) b(2) by simp
  then have 1: "k < flog2 x + 1"
    using pow2_mono [of "flog2 x + 1" k] by (cases "k < flog2 x + 1") auto
  have "pow2 (flog2 x) < pow2 (k + 1)" using assms(2) b(1) by simp
  then have 2: "flog2 x < k + 1"
    using pow2_mono [of "k + 1" "flog2 x"] by (cases "flog2 x < k + 1") auto
  from 1 2 show ?thesis by simp
qed

lemma roundEven_int [simp]: "roundEven (rat_of_int m) = m"
  by (simp add: roundEven_def)

lemma roundEven_bounds:
  "rat_of_int (roundEven x) \<le> x + 1 / 2 \<and> x - 1 / 2 \<le> rat_of_int (roundEven x)"
proof -
  define n where "n = \<lfloor>x\<rfloor>"
  have n: "rat_of_int n \<le> x" "x < rat_of_int n + 1" unfolding n_def by linarith+
  consider "x - rat_of_int n < 1 / 2" | "1 / 2 < x - rat_of_int n" | "x - rat_of_int n = 1 / 2"
    by linarith
  then show ?thesis
  proof cases
    case 1
    then have "roundEven x = n" by (simp add: roundEven_def Let_def n_def)
    with n 1 show ?thesis by simp
  next
    case 2
    then have "roundEven x = n + 1" by (simp add: roundEven_def Let_def n_def)
    with n 2 show ?thesis by simp
  next
    case 3
    then have "roundEven x = n \<or> roundEven x = n + 1" by (simp add: roundEven_def Let_def n_def)
    with n 3 show ?thesis by auto
  qed
qed

lemma scaled_round_bounds:
  assumes "0 < p"
  shows "x - p / 2 \<le> rat_of_int (roundEven (x / p)) * p \<and>
         rat_of_int (roundEven (x / p)) * p \<le> x + p / 2"
proof -
  have zp: "x / p * p = x" using assms by simp
  from roundEven_bounds [of "x / p"]
  have "(x / p - 1 / 2) * p \<le> rat_of_int (roundEven (x / p)) * p"
       "rat_of_int (roundEven (x / p)) * p \<le> (x / p + 1 / 2) * p"
    using assms by (simp_all add: mult_right_mono)
  moreover have "(x / p - 1 / 2) * p = x - p / 2" "(x / p + 1 / 2) * p = x + p / 2"
    using zp by (simp_all add: algebra_simps)
  ultimately show ?thesis by simp
qed

lemma roundEven_floor: "x - rat_of_int \<lfloor>x\<rfloor> < 1 / 2 \<Longrightarrow> roundEven x = \<lfloor>x\<rfloor>"
  by (simp add: roundEven_def Let_def)

text \<open>Integers up to \<open>2^53\<close> are doubles.\<close>

lemma fl_int:
  assumes "\<bar>n\<bar> \<le> 2 ^ 53"
  shows "fl (rat_of_int n) = Num (rat_of_int n)"
proof (cases "n = 0")
  case True
  then show ?thesis by (simp add: fl_def)
next
  case False
  define x where "x = \<bar>rat_of_int n\<bar>"
  define k where "k = flog2 x"
  define p where "p = pow2 (k - 52)"
  have "1 \<le> \<bar>n\<bar>" using False by simp
  then have "rat_of_int 1 \<le> rat_of_int \<bar>n\<bar>" by (simp only: of_int_le_iff)
  then have x1: "1 \<le> x" by (simp add: x_def)
  have "rat_of_int \<bar>n\<bar> \<le> rat_of_int (2 ^ 53)" using assms by (simp only: of_int_le_iff)
  then have x53: "x \<le> 2 ^ 53" by (simp add: x_def)
  have pos: "0 < x" using x1 by simp
  from flog2_bounds [OF pos] have b: "pow2 k \<le> x" "x < pow2 (k + 1)" by (simp_all add: k_def)
  have k0: "0 \<le> k"
  proof (rule ccontr)
    assume "\<not> 0 \<le> k"
    then have "k + 1 \<le> 0" by simp
    from pow2_mono [OF this] have "pow2 (k + 1) \<le> 1" by (simp add: pow2_def)
    with b(2) x1 show False by simp
  qed
  have k53: "k \<le> 53"
  proof (rule ccontr)
    assume "\<not> k \<le> 53"
    then have "54 \<le> k" by simp
    from pow2_mono [OF this] have "2 ^ 54 \<le> pow2 k" by (simp add: pow2_def)
    with b(1) x53 show False by simp
  qed
  have e: "max (- 1074) (k - 52) = k - 52" using k0 by simp
  have ppos: "0 < p" by (simp add: p_def pow2_pos)
  have "\<exists>m. rat_of_int n / p = rat_of_int m"
  proof (cases "k \<le> 52")
    case True
    then have "p = 1 / 2 ^ nat (52 - k)"
      unfolding p_def by (cases "k = 52") (simp_all add: pow2_def)
    then have "rat_of_int n / p = rat_of_int (n * 2 ^ nat (52 - k))" by simp
    then show ?thesis by blast
  next
    case False
    with k53 have k: "k = 53" by simp
    then have "2 ^ 53 \<le> x" using b(1) by (simp add: pow2_def)
    with x53 have "x = 2 ^ 53" by simp
    then have "rat_of_int \<bar>n\<bar> = rat_of_int (2 ^ 53)" by (simp add: x_def)
    then have "\<bar>n\<bar> = 2 ^ 53" by (simp only: of_int_eq_iff)
    then have "n = 2 ^ 53 \<or> n = - (2 ^ 53)" by linarith
    then have "rat_of_int n / 2 = rat_of_int (n div 2)" by auto
    moreover have "p = 2" using k by (simp add: p_def pow2_def)
    ultimately show ?thesis by auto
  qed
  then obtain m where m: "rat_of_int n / p = rat_of_int m" by blast
  have "rat_of_int (roundEven (rat_of_int n / p)) * p = rat_of_int n / p * p"
    by (simp only: m roundEven_int)
  then have y: "rat_of_int (roundEven (rat_of_int n / p)) * p = rat_of_int n"
    using ppos by simp
  have "\<bar>rat_of_int n\<bar> < 2 ^ 1024" using x53 by (simp add: x_def)
  then have small: "\<not> (2::rat) ^ 1024 \<le> rat_of_int n" "\<not> rat_of_int n \<le> - ((2::rat) ^ 1024)"
    by (simp_all add: abs_less_iff)
  have nz: "rat_of_int n \<noteq> 0" using False by simp
  show ?thesis
    unfolding fl_def Let_def x_def [symmetric] k_def [symmetric] e p_def [symmetric] y
    using nz small by (simp only: if_False)
qed

text \<open>Adding 1 to a number in \<open>[1, 2^53)\<close> gives a larger double.\<close>

lemma fl_add_one:
  assumes "1 \<le> a" and "a < 2 ^ 53"
  shows "\<exists>r. fl (a + 1) = Num r \<and> a < r"
proof -
  define x where "x = a + 1"
  define k where "k = flog2 \<bar>x\<bar>"
  define p where "p = pow2 (k - 52)"
  define y where "y = rat_of_int (roundEven (x / p)) * p"
  have ax: "\<bar>x\<bar> = x" using assms by (simp add: x_def)
  have x2: "2 \<le> x" "x < 2 ^ 53 + 1" using assms by (simp_all add: x_def)
  have pos: "0 < x" using x2 by simp
  from flog2_bounds [OF pos] have b: "pow2 k \<le> x" "x < pow2 (k + 1)" by (simp_all add: k_def ax)
  have k1: "1 \<le> k"
  proof (rule ccontr)
    assume "\<not> 1 \<le> k"
    then have "k + 1 \<le> 1" by simp
    from pow2_mono [OF this] have "pow2 (k + 1) \<le> 2" by (simp add: pow2_def)
    with b(2) x2 show False by simp
  qed
  have k53: "k \<le> 53"
  proof (rule ccontr)
    assume "\<not> k \<le> 53"
    then have "54 \<le> k" by simp
    from pow2_mono [OF this] have "2 ^ 54 \<le> pow2 k" by (simp add: pow2_def)
    with b(1) x2 show False by simp
  qed
  have e: "max (- 1074) (k - 52) = k - 52" using k1 by simp
  have ppos: "0 < p" by (simp add: p_def pow2_pos)
  have bounds: "x - p / 2 \<le> y" "y \<le> x + p / 2"
    using scaled_round_bounds [OF ppos, of x] by (simp_all add: y_def)
  have ylow: "a < y"
  proof (cases "k \<le> 52")
    case True
    then have "p \<le> 1" using pow2_mono [of "k - 52" 0] by (simp add: pow2_def p_def)
    with bounds(1) show ?thesis by (simp add: x_def)
  next
    case False
    with k53 have k: "k = 53" by simp
    have p: "p = 2" using k by (simp add: p_def pow2_def)
    have lo: "2 ^ 52 \<le> x / 2" using b(1) k by (simp add: pow2_def)
    have hi: "x / 2 < 2 ^ 52 + 1 / 2" using x2 by simp
    have fl: "\<lfloor>x / 2\<rfloor> = 2 ^ 52" using lo hi by (simp add: floor_eq_iff)
    have "roundEven (x / 2) = 2 ^ 52"
      using roundEven_floor [of "x / 2"] hi by (simp add: fl)
    then have "y = 2 ^ 53" by (simp add: y_def p)
    then show ?thesis using assms by simp
  qed
  have yhigh: "y \<le> x + 1"
  proof -
    have "p \<le> 2" using k53 pow2_mono [of "k - 52" 1] by (simp add: pow2_def p_def)
    with bounds(2) show ?thesis by simp
  qed
  have small: "\<not> 2 ^ 1024 \<le> y" "\<not> y \<le> - (2 ^ 1024)"
    using yhigh ylow x2 assms by simp_all
  have nz: "x \<noteq> 0" using pos by simp
  have "fl x = Num y"
    unfolding fl_def Let_def k_def [symmetric] e p_def [symmetric] y_def [symmetric]
    using nz small by (simp only: if_False)
  with ylow show ?thesis by (auto simp: x_def)
qed


text \<open>\<open>fl\<close> never yields \<open>NaN\<close>.\<close>

lemma fl_not_NaN [simp]: "fl x \<noteq> NaN"
  by (simp add: fl_def Let_def)

text \<open>Floors of rational numerals, for the evaluation of \<open>fl\<close> on given numbers.\<close>

lemma floor_rat_numeral:
  "\<lfloor>(numeral a :: rat) / numeral b\<rfloor> = numeral a div numeral b"
  "\<lfloor>- (numeral a :: rat) / numeral b\<rfloor> = - numeral a div numeral b"
  "\<lfloor>- ((numeral a :: rat) / numeral b)\<rfloor> = - numeral a div numeral b"
  "\<lfloor>(1 :: rat) / numeral b\<rfloor> = 1 div numeral b"
  "\<lfloor>- ((1 :: rat) / numeral b)\<rfloor> = - 1 div numeral b"
proof -
  show "\<lfloor>(numeral a :: rat) / numeral b\<rfloor> = numeral a div numeral b"
    using floor_divide_of_int_eq [of "numeral a" "numeral b", where ?'a = rat] by simp
  show 2: "\<lfloor>- (numeral a :: rat) / numeral b\<rfloor> = - numeral a div numeral b"
    using floor_divide_of_int_eq [of "- numeral a" "numeral b", where ?'a = rat] by simp
  then show "\<lfloor>- ((numeral a :: rat) / numeral b)\<rfloor> = - numeral a div numeral b" by simp
  show "\<lfloor>(1 :: rat) / numeral b\<rfloor> = 1 div numeral b"
    using floor_divide_of_int_eq [of 1 "numeral b", where ?'a = rat] by simp
  show "\<lfloor>- ((1 :: rat) / numeral b)\<rfloor> = - 1 div numeral b"
    using floor_divide_of_int_eq [of "- 1" "numeral b", where ?'a = rat] by simp
qed

lemmas num_defs = fl_def flog2.simps pow2_def roundEven_def floor_rat_numeral js_sub_def
  js_max_def js_gt_def js_ge_def orZero_def sliceFrom_def

section \<open>Evaluation and frame lemmas\<close>

lemma fl_numeral:
  "numeral k \<le> (2 :: int) ^ 53 \<Longrightarrow> fl (numeral k) = Num (numeral k)"
  "numeral k \<le> (2 :: int) ^ 53 \<Longrightarrow> fl (- numeral k) = Num (- numeral k)"
  "fl 0 = Num 0"
  "fl 1 = Num 1"
  using fl_int [of "numeral k"] fl_int [of "- numeral k"] fl_int [of 0] fl_int [of 1]
  by simp_all

lemma fl_nat: "n \<le> 2 ^ 53 \<Longrightarrow> fl (rat_of_nat n) = Num (rat_of_nat n)"
proof -
  assume "n \<le> 2 ^ 53"
  then have "int n \<le> int (2 ^ 53)" by (simp only: of_nat_le_iff)
  then have "\<bar>int n\<bar> \<le> 2 ^ 53" by simp
  from fl_int [OF this] show ?thesis by simp
qed

lemma js_sub_Num: "js_sub (Num a) (Num b) = fl (a - b)"
  by (simp add: js_sub_def)

lemmas js_defs = fl_numeral js_sub_def js_max_def js_gt_def js_ge_def orZero_def

lemmas tick_defs = runBotTick_def refresh_def freshState_def tryBody_def countCandle_def
  recordMarketData_def marketDataOf_def finiteCloses_def lastOf_def futuresBranch_def
  futuresDecide_def toStatePosition_def checkMaxLoss_def dayMs_def orDefault_def
  futuresAct_def checkStopLossTakeProfit_def futuresEntry_def futuresClose_def
  placeFuturesEntry_def preventDuplicate_def checkCooldown_def sendOrder_def finishTick_def
  upsertBotState_def updateBot_def stateToRow_def blockedMessage_def catchError_def
  errString_def spotBranch_def spotTrade_def startLoop_def snapshot_def calmTick_def
  countersAt_def

text \<open>No step after the market data is recorded changes it.\<close>

lemma andThen_md:
  assumes "stMarketData (state (snd X)) = m"
      and "\<And>l. stMarketData (state l) = m \<Longrightarrow> stMarketData (state (snd (f l))) = m"
  shows "stMarketData (state (snd (andThen X f))) = m"
proof (cases X)
  case (Pair e l)
  then show ?thesis using assms by (cases e) simp_all
qed

lemma upsertBotState_md:
  "stMarketData (state (snd (upsertBotState a ls))) = stMarketData (state ls)"
  by (simp add: upsertBotState_def split: option.splits)

lemma updateBot_md: "stMarketData (state (snd (updateBot a ls))) = stMarketData (state ls)"
  by (simp add: updateBot_def split: option.splits)

lemma sendOrder_md: "stMarketData (state (snd (sendOrder env c ls))) = stMarketData (state ls)"
  by (simp add: sendOrder_def)

lemma finishTick_md: "stMarketData (state (snd (finishTick env ls))) = stMarketData (state ls)"
  unfolding finishTick_def Let_def
  by (rule andThen_md) (simp_all add: upsertBotState_md updateBot_md)

lemma futuresClose_md:
  "stMarketData (state (snd (futuresClose env amt u c ls))) = stMarketData (state ls)"
  unfolding futuresClose_def Let_def
  by (rule andThen_md) (simp_all add: sendOrder_md)

lemma placeFuturesEntry_md:
  "stMarketData (state (snd (placeFuturesEntry env sd q sig ls))) = stMarketData (state ls)"
  unfolding placeFuturesEntry_def Let_def
  by (rule andThen_md) (simp_all add: sendOrder_md)

lemma futuresEntry_md:
  "stMarketData (state (snd (futuresEntry env sig closes amt ls))) = stMarketData (state ls)"
  unfolding futuresEntry_def Let_def
  by (simp add: placeFuturesEntry_md)

lemma futuresAct_md:
  "stMarketData (state (snd (futuresAct env sig closes sp ls))) = stMarketData (state ls)"
  unfolding futuresAct_def
  by (simp add: futuresEntry_md futuresClose_md split: option.splits)

lemma futuresDecide_md:
  "stMarketData (state (snd (futuresDecide env sig closes w pos ls))) = stMarketData (state ls)"
proof -
  have "stMarketData (state (snd (andThen (futuresAct env sig closes sp l) (finishTick env))))
          = stMarketData (state l)" for sp l
    by (rule andThen_md) (simp_all add: futuresAct_md finishTick_md)
  then show ?thesis
    unfolding futuresDecide_def Let_def
    by (simp add: upsertBotState_md split: lossCheck.splits)
qed

lemma futuresBranch_md:
  "stMarketData (state (snd (futuresBranch env sig closes ls))) = stMarketData (state ls)"
  unfolding futuresBranch_def
  by (simp add: futuresDecide_md split: option.splits sum.splits)

lemma spotTrade_md:
  "stMarketData (state (snd (spotTrade env sd q price sig ls))) = stMarketData (state ls)"
  unfolding spotTrade_def Let_def
  by (simp add: sendOrder_md split: option.splits)

lemma spotBranch_md:
  "stMarketData (state (snd (spotBranch env sig closes ls))) = stMarketData (state ls)"
proof -
  have inner: "stMarketData (state (snd (andThen X (finishTick env)))) = stMarketData (state l)"
    if "stMarketData (state (snd X)) = stMarketData (state l)" for X l
    using that by (rule andThen_md) (simp add: finishTick_md)
  show ?thesis
    unfolding spotBranch_def Let_def
    apply (rule andThen_md)
     apply simp
    apply (rule inner)
    apply (simp add: spotTrade_md)
    done
qed

lemma catchBlock_md:
  "catchBlock env X = Next ls' \<Longrightarrow> stMarketData (state ls') = stMarketData (state (snd X))"
proof (cases X)
  case (Pair e l)
  assume "catchBlock env X = Next ls'"
  with Pair show ?thesis
    by (cases e; cases "upsertInCatch env")
       (auto simp: upsertBotState_def catchError_def)
qed

lemma tryBody_md:
  assumes "enabled (config ls)" and "klines env = Inr ks"
  shows "stMarketData (state (snd (tryBody env ls))) =
           stMarketData (state (recordMarketData (finiteCloses ks) (countCandle ls)))"
  using assms unfolding tryBody_def Let_def
  by (simp add: futuresBranch_md spotBranch_md)

lemma entered_simps:
  "config (entered ub ks ls) = config (refresh ub ls)"
  "runtime (entered ub ks ls) = (runtime ls)\<lparr>candleCount := candleCount (runtime ls) + 1\<rparr>"
  "orders (entered ub ks ls) = orders ls"
  "written (entered ub ks ls) = written ls"
  "saved (entered ub ks ls) = saved ls"
  "lastDecision (entered ub ks ls) = lastDecision ls"
  "tickDecision (entered ub ks ls) = None"
  "stLastDecision (state (entered ub ks ls)) = lastDecision ls"
  by (simp_all add: entered_def recordMarketData_def countCandle_def refresh_def freshState_def)

lemma futures_tick_path:
  assumes "getBotById env = Inr ub"
      and "enabled (config (refresh ub ls))"
      and "market (config (refresh ub ls)) = ''futures''"
      and "klines env = Inr ks"
      and "setLeverage env = None"
      and "futuresAccount env = Inr w"
      and "positionRisk env = Inr pos"
  shows "runBotTick env ls =
           catchBlock env
             (futuresDecide env (signal (tickSignal (config (refresh ub ls)) (finiteCloses ks)))
                (finiteCloses ks) w pos (entered ub ks ls))"
  using assms
  by (simp add: runBotTick_def tryBody_def Let_def futuresBranch_def entered_def)

lemma orDefault_number:
  "orDefault (JNumber (Num x)) d = Num (if x = 0 then d else x)"
  by (simp add: orDefault_def)

lemma orDefault_absent:
  "orDefault JUndefined d = Num d" "orDefault JNull d = Num d"
  by (simp_all add: orDefault_def)

lemma checkMaxLoss_verdict:
  assumes "risk cfg = Some r"
  shows "allowed (snd (checkMaxLoss rt cfg (fl w) now)) = (\<not> lossLimitReached rt w r now)"
  using assms
  by (simp add: checkMaxLoss_def Let_def lossLimitReached_def lossLimit_def dailyLossAt_def)

lemma checkMaxLoss_counters:
  "candleCount (fst (checkMaxLoss rt cfg w now)) = candleCount rt"
  "lastOrderCandle (fst (checkMaxLoss rt cfg w now)) = lastOrderCandle rt"
  by (simp_all add: checkMaxLoss_def Let_def split: option.splits)

lemma checkMaxLoss_count_irrelevant:
  "snd (checkMaxLoss (rt\<lparr>candleCount := n\<rparr>) cfg w now) = snd (checkMaxLoss rt cfg w now)"
  by (simp add: checkMaxLoss_def Let_def split: option.splits)

lemma catch_finish_status:
  assumes "catchBlock env (andThen X (finishTick env)) = Next ls'"
  shows "\<exists>row. snapshot ls' = Some row \<and>
               (rowStatus row = Some ''RUNNING'' \<or> rowStatus row = Some ''ERROR'')"
proof (cases X)
  case (Pair e l)
  show ?thesis
  proof (cases e)
    case None
    with Pair assms show ?thesis
      by (cases "upsertInTry env"; cases "upsertInCatch env"; cases "updateBotWrite env")
         (auto simp: finishTick_def Let_def upsertBotState_def updateBot_def catchError_def
            stateToRow_def snapshot_def split: if_splits)
  next
    case (Some a)
    with Pair assms show ?thesis
      by (cases "upsertInCatch env")
         (auto simp: upsertBotState_def catchError_def stateToRow_def snapshot_def)
  qed
qed

lemma finishTick_frame:
  "orders (snd (finishTick env l)) = orders l"
  "tickDecision (snd (finishTick env l)) = tickDecision l"
  "runtime (snd (finishTick env l)) = runtime l"
  by (cases "upsertInTry env"; cases "updateBotWrite env";
      simp add: finishTick_def Let_def upsertBotState_def updateBot_def)+

lemma andThen_finish_frame:
  "orders (snd (andThen X (finishTick env))) = orders (snd X)"
  "tickDecision (snd (andThen X (finishTick env))) = tickDecision (snd X)"
  "runtime (snd (andThen X (finishTick env))) = runtime (snd X)"
  by (cases X; cases "fst X"; simp add: finishTick_frame)+

lemma catchBlock_frame:
  assumes "catchBlock env X = Next ls'"
  shows "orders ls' = orders (snd X) \<and> tickDecision ls' = tickDecision (snd X) \<and>
         runtime ls' = runtime (snd X)"
  using assms
  by (cases X; cases "fst X"; cases "upsertInCatch env")
     (auto simp: upsertBotState_def)

lemma allowed_tick_path:
  assumes "getBotById env = Inr ub"
      and "klines env = Inr ks"
      and "setLeverage env = None"
      and "futuresAccount env = Inr w"
      and "positionRisk env = Inr pos"
      and "cfg = config (refresh ub ls)"
      and "enabled cfg"
      and "market cfg = ''futures''"
      and "allowed (snd (checkMaxLoss (runtime ls) cfg (fl w) (dateNow env)))"
      and "runBotTick env ls = Next ls'"
  shows "\<exists>l. config l = cfg \<and> orders l = orders ls \<and>
             candleCount (runtime l) = candleCount (runtime ls) + 1 \<and>
             lastOrderCandle (runtime l) = lastOrderCandle (runtime ls) \<and>
             orders ls' = orders (snd (futuresAct env
                (signal (tickSignal cfg (finiteCloses ks))) (finiteCloses ks)
                (toStatePosition pos) l)) \<and>
             tickDecision ls' = tickDecision (snd (futuresAct env
                (signal (tickSignal cfg (finiteCloses ks))) (finiteCloses ks)
                (toStatePosition pos) l)) \<and>
             runtime ls' = runtime (snd (futuresAct env
                (signal (tickSignal cfg (finiteCloses ks))) (finiteCloses ks)
                (toStatePosition pos) l))"
proof -
  let ?E = "entered ub ks ls"
  let ?sig = "signal (tickSignal cfg (finiteCloses ks))"
  let ?chk = "checkMaxLoss (runtime ?E) cfg (fl w) (dateNow env)"
  let ?l = "?E\<lparr>state := (state ?E)\<lparr>stPosition := Some (toStatePosition pos)\<rparr>,
               runtime := fst ?chk\<rparr>"
  have path: "runBotTick env ls =
      catchBlock env (futuresDecide env ?sig (finiteCloses ks) w pos ?E)"
    using assms by (simp add: futures_tick_path)
  have "allowed (snd ?chk)"
    using assms(9) by (simp add: entered_simps checkMaxLoss_count_irrelevant)
  then have al: "snd ?chk = Allowed" by (cases "snd ?chk") simp_all
  have "catchBlock env (andThen (futuresAct env ?sig (finiteCloses ks) (toStatePosition pos) ?l)
           (finishTick env)) = Next ls'"
    using assms(10) al assms(6)
    by (simp add: path futuresDecide_def Let_def entered_simps)
  from catchBlock_frame [OF this]
  have "orders ls' = orders (snd (futuresAct env ?sig (finiteCloses ks) (toStatePosition pos) ?l)) \<and>
        tickDecision ls' =
          tickDecision (snd (futuresAct env ?sig (finiteCloses ks) (toStatePosition pos) ?l)) \<and>
        runtime ls' = runtime (snd (futuresAct env ?sig (finiteCloses ks) (toStatePosition pos) ?l))"
    by (simp add: andThen_finish_frame)
  moreover have "config ?l = cfg \<and> orders ?l = orders ls \<and>
             candleCount (runtime ?l) = candleCount (runtime ls) + 1 \<and>
             lastOrderCandle (runtime ?l) = lastOrderCandle (runtime ls)"
    using assms(6) by (simp add: entered_simps checkMaxLoss_counters)
  ultimately show ?thesis by blast
qed

lemma checkStopLossTakeProfit_verdict:
  assumes "risk cfg = Some r"
      and "fl (posAmt p) \<noteq> Num 0"
      and "fl (posEntryPrice p) \<noteq> Num 0"
      and "fl (posMarkPrice p) \<noteq> Num 0"
  shows "checkStopLossTakeProfit (toStatePosition (Some p)) cfg =
           (if js_le (roundedPnl p) (js_neg (orDefault (stopLossPercent r) 1))
            then Some \<lparr>closeReason = ''STOP_LOSS'', closePnl = roundedPnl p\<rparr>
            else if js_ge (roundedPnl p) (orDefault (takeProfitPercent r) (3 / 2))
            then Some \<lparr>closeReason = ''TAKE_PROFIT'', closePnl = roundedPnl p\<rparr>
            else None)"
proof -
  have "js_abs (fl (posAmt p)) \<noteq> Num 0"
    using assms(2) by (cases "fl (posAmt p)") simp_all
  then show ?thesis
    using assms
    by (simp add: checkStopLossTakeProfit_def toStatePosition_def Let_def orZero_def
        roundedPnl_def)
qed

lemma open_position_size:
  "fl a \<noteq> Num 0 \<Longrightarrow> js_gt (js_abs (fl a)) (Num 0)"
  by (cases "fl a") (simp_all add: js_gt_def)

lemma futuresClose_effects:
  "tickDecision (snd (futuresClose env amt u c l)) =
     Some \<lparr>action = (if dryRun (config l) then ''DRY_CLOSE_'' else ''CLOSE_'') @ closeReason c,
           reason = closeReason c, qty = js_abs amt, decSignal = None, lastPrice = None,
           pnl = Some (closePnl c)\<rparr> \<and>
   orders (snd (futuresClose env amt u c l)) =
     orders l @ (if dryRun (config l) then []
                 else [FuturesOrder \<lparr>side = (if js_gt amt (Num 0) then ''SELL'' else ''BUY''),
                         orderType = ''MARKET'', quantity = js_abs amt, reduceOnly = True\<rparr>])"
  by (cases "placeOrder env") (simp_all add: futuresClose_def Let_def sendOrder_def)

lemma placeFuturesEntry_effects:
  "tickDecision (snd (placeFuturesEntry env sd q sig l)) =
     Some \<lparr>action = (if dryRun (config l) then ''DRY_'' @ sd else sd), reason = ''MA_CROSS'',
           qty = q, decSignal = Some sig, lastPrice = None, pnl = None\<rparr> \<and>
   orders (snd (placeFuturesEntry env sd q sig l)) =
     orders l @ (if dryRun (config l) then []
                 else [FuturesOrder \<lparr>side = sd, orderType = ''MARKET'', quantity = q,
                         reduceOnly = False\<rparr>])"
  by (cases "placeOrder env") (simp_all add: placeFuturesEntry_def Let_def sendOrder_def)

lemma futuresEntry_no_close:
  "filter isReduceOnly (orders (snd (futuresEntry env sig closes amt l))) =
     filter isReduceOnly (orders l) \<and>
   (\<exists>d. tickDecision (snd (futuresEntry env sig closes amt l)) = Some d \<and>
        reason d \<noteq> ''STOP_LOSS'' \<and> reason d \<noteq> ''TAKE_PROFIT'' \<and> pnl d = None)"
  by (simp add: futuresEntry_def Let_def placeFuturesEntry_effects)

lemma placeFuturesEntry_runtime:
  "dryRun (config l) \<or> placeOrder env = None \<Longrightarrow>
   runtime (snd (placeFuturesEntry env sd q sig l)) =
     (runtime l)\<lparr>lastOrderCandle := candleCount (runtime l)\<rparr>"
  by (auto simp: placeFuturesEntry_def Let_def sendOrder_def)












section \<open>Values of the examples\<close>

lemma step_val: "fl (1 / 10000) = Num (7378697629483821 / 73786976294838206464)"
  by (simp add: num_defs Let_def)

lemma fifth_val: "fifth = Num (3602879701896397 / 18014398509481984)"
  by (simp add: fifth_def num_defs Let_def)

text \<open>
  With 20 quote units to spend, a step of \<open>0.0001\<close> and a last close of 100, the order
  quantity is the double \<open>0.2\<close>, and it is valid.
\<close>

lemma default_qty:
  assumes "riskField orderQuoteAmount cfg = JNumber (Num 20)"
      and "riskField quantityStep cfg = JNumber (fl (1 / 10000))"
  shows "orderQty cfg (Some 100) = fifth" and "qtyValid cfg (Some 100)"
proof -
  show q: "orderQty cfg (Some 100) = fifth"
    using assms by (simp add: orderQty_def roundStep_def step_val fifth_val num_defs Let_def)
  show "qtyValid cfg (Some 100)"
    unfolding qtyValid_def q Let_def
    using assms by (simp add: step_val fifth_val num_defs Let_def)
qed

lemma calm_signal:
  assumes "strategy cfg = Some \<lparr>fastPeriod = JNumber (Num 2), slowPeriod = JNumber (Num 3)\<rparr>"
  shows "tickSignal cfg [1, 2, 3, 100] =
           \<lparr>signal = LONG, fast = Some (Num (103 / 2)), slow = Some (Num 35)\<rparr>"
  using assms
  by (simp add: tickSignal_def effectivePeriods_def strategyField_def computeSignal_def sma_def
      num_defs fl_numeral Let_def)

lemma futuresBot_risk:
  "risk futuresBot =
     Some \<lparr>orderQuoteAmount = JNumber (Num 20), leverage = JNumber (Num 3),
           quantityStep = JNumber (fl (1 / 10000)),
           stopLossPercent = JNumber (Num 1),
           takeProfitPercent = JNumber (Num (3 / 2)),
           maxDailyLossPercent = JNumber (Num 5),
           maxTotalLossPercent = JNumber (Num 10)\<rparr>"
  by (simp add: futuresBot_def defaultBotConfig_def)

lemma futuresBot_simps:
  "botId futuresBot = ''bot-1''" "enabled futuresBot" "market futuresBot = ''futures''"
  "\<not> dryRun futuresBot" "virtualBalance futuresBot = None"
  "strategy futuresBot = Some \<lparr>fastPeriod = JNumber (Num 2), slowPeriod = JNumber (Num 3)\<rparr>"
  "position futuresBot =
     Some \<lparr>preventDuplicateOrders = Some True, cooldownCandles = JNumber (Num 3)\<rparr>"
  "riskField orderQuoteAmount futuresBot = JNumber (Num 20)"
  "riskField quantityStep futuresBot = JNumber (fl (1 / 10000))"
  "useTestnet futuresBot"
  by (simp_all add: futuresBot_def defaultBotConfig_def riskField_def)

lemma spotBot_simps:
  "botId spotBot = ''bot-1''" "enabled spotBot" "market spotBot = ''spot''"
  "\<not> dryRun spotBot" "virtualBalance spotBot = None"
  "strategy spotBot = Some \<lparr>fastPeriod = JNumber (Num 2), slowPeriod = JNumber (Num 3)\<rparr>"
  "position spotBot =
     Some \<lparr>preventDuplicateOrders = Some True, cooldownCandles = JNumber (Num 3)\<rparr>"
  "riskField orderQuoteAmount spotBot = JNumber (Num 20)"
  "riskField quantityStep spotBot = JNumber (fl (1 / 10000))"
  "risk spotBot = risk futuresBot"
  by (simp_all add: spotBot_def futuresBot_def defaultBotConfig_def riskField_def)

lemma zeroLimitBot_simps:
  "botId zeroLimitBot = ''bot-1''" "enabled zeroLimitBot" "market zeroLimitBot = ''futures''"
  "\<not> dryRun zeroLimitBot" "virtualBalance zeroLimitBot = None"
  "strategy zeroLimitBot = Some \<lparr>fastPeriod = JNumber (Num 2), slowPeriod = JNumber (Num 3)\<rparr>"
  "position zeroLimitBot =
     Some \<lparr>preventDuplicateOrders = Some True, cooldownCandles = JNumber (Num 3)\<rparr>"
  "riskField orderQuoteAmount zeroLimitBot = JNumber (Num 20)"
  "riskField quantityStep zeroLimitBot = JNumber (fl (1 / 10000))"
  "risk zeroLimitBot =
     Some \<lparr>orderQuoteAmount = JNumber (Num 20), leverage = JNumber (Num 3),
           quantityStep = JNumber (fl (1 / 10000)),
           stopLossPercent = JNumber (Num 1),
           takeProfitPercent = JNumber (Num (3 / 2)),
           maxDailyLossPercent = JNumber (Num 0),
           maxTotalLossPercent = JNumber (Num 10)\<rparr>"
  by (simp_all add: zeroLimitBot_def futuresBot_def defaultBotConfig_def riskField_def)

lemma dryFuturesBot_simps:
  "botId dryFuturesBot = ''bot-1''" "enabled dryFuturesBot" "market dryFuturesBot = ''futures''"
  "dryRun dryFuturesBot" "virtualBalance dryFuturesBot = Some defaultLedger"
  "strategy dryFuturesBot = Some \<lparr>fastPeriod = JNumber (Num 2), slowPeriod = JNumber (Num 3)\<rparr>"
  "position dryFuturesBot =
     Some \<lparr>preventDuplicateOrders = Some True, cooldownCandles = JNumber (Num 3)\<rparr>"
  "riskField orderQuoteAmount dryFuturesBot = JNumber (Num 20)"
  "riskField quantityStep dryFuturesBot = JNumber (fl (1 / 10000))"
  "risk dryFuturesBot = risk futuresBot"
  by (simp_all add: dryFuturesBot_def futuresBot_def defaultBotConfig_def riskField_def)

lemma drySpotBot_simps:
  "botId drySpotBot = ''bot-1''" "enabled drySpotBot" "market drySpotBot = ''spot''"
  "dryRun drySpotBot" "virtualBalance drySpotBot = Some defaultLedger"
  "strategy drySpotBot = Some \<lparr>fastPeriod = JNumber (Num 2), slowPeriod = JNumber (Num 3)\<rparr>"
  "position drySpotBot =
     Some \<lparr>preventDuplicateOrders = Some True, cooldownCandles = JNumber (Num 3)\<rparr>"
  "riskField orderQuoteAmount drySpotBot = JNumber (Num 20)"
  "riskField quantityStep drySpotBot = JNumber (fl (1 / 10000))"
  "risk drySpotBot = risk futuresBot"
  by (simp_all add: drySpotBot_def spotBot_def futuresBot_def defaultBotConfig_def riskField_def)

lemmas bot_simps = futuresBot_simps futuresBot_risk spotBot_simps zeroLimitBot_simps
  dryFuturesBot_simps drySpotBot_simps

lemmas calm_values =
  default_qty [OF futuresBot_simps(8,9)] default_qty [OF spotBot_simps(8,9)]
  default_qty [OF zeroLimitBot_simps(8,9)] default_qty [OF dryFuturesBot_simps(8,9)]
  default_qty [OF drySpotBot_simps(8,9)]
  calm_signal [OF futuresBot_simps(6)] calm_signal [OF spotBot_simps(6)]
  calm_signal [OF zeroLimitBot_simps(6)] calm_signal [OF dryFuturesBot_simps(6)]
  calm_signal [OF drySpotBot_simps(6)]

lemmas calm_eval = tick_defs calm_values bot_simps js_defs fifth_val Let_def

section \<open>Properties of the signal engine\<close>

lemma sliceFrom_nat: "sliceFrom (Num (rat_of_nat k)) xs = drop k xs"
  by (simp add: sliceFrom_def)

lemma slice_start:
  assumes "n \<le> length xs" and "length xs \<le> 2 ^ 53"
  shows "sliceFrom (js_sub (Num (rat_of_nat (length xs))) (Num (rat_of_nat n))) xs =
           drop (length xs - n) xs"
proof -
  have d: "rat_of_nat (length xs) - rat_of_nat n = rat_of_nat (length xs - n)"
    using assms(1) by (simp only: of_nat_diff)
  have "length xs - n \<le> 2 ^ 53" using assms(2) by simp
  then have "fl (rat_of_nat (length xs - n)) = Num (rat_of_nat (length xs - n))"
    by (rule fl_nat)
  then show ?thesis
    by (simp only: js_sub_Num d sliceFrom_nat)
qed

lemma sma_short: "length xs < n \<Longrightarrow> sma xs (Num (rat_of_nat n)) = None"
  by (simp add: sma_def)

lemma sma_full:
  "n \<le> length xs \<Longrightarrow> length xs \<le> 2 ^ 53 \<Longrightarrow>
   sma xs (Num (rat_of_nat n)) = Some (roundedMean n xs)"
  unfolding sma_def roundedMean_def Let_def
  by (simp only: slice_start js_lt.simps of_nat_less_iff) simp

text \<open>
  Where no rounding occurs, the rounded mean is the arithmetic mean: this is so when every
  partial sum of the window and the quotient are doubles themselves.
\<close>

lemma foldl_add_exact:
  "(\<forall>k \<le> length ys. fl (sum_list (take k ys)) = Num (sum_list (take k ys))) \<Longrightarrow>
   foldl (\<lambda>a b. js_add a (Num b)) (Num 0) ys = Num (sum_list ys)"
proof (induction ys rule: rev_induct)
  case Nil
  show ?case by simp
next
  case (snoc x xs)
  have "\<forall>k \<le> length xs. fl (sum_list (take k xs)) = Num (sum_list (take k xs))"
  proof (intro allI impI)
    fix k assume k: "k \<le> length xs"
    then have "take k (xs @ [x]) = take k xs" by simp
    moreover have "k \<le> length (xs @ [x])" using k by simp
    ultimately show "fl (sum_list (take k xs)) = Num (sum_list (take k xs))"
      using snoc.prems by metis
  qed
  then have ih: "foldl (\<lambda>a b. js_add a (Num b)) (Num 0) xs = Num (sum_list xs)"
    by (rule snoc.IH)
  have "fl (sum_list (take (length (xs @ [x])) (xs @ [x]))) =
          Num (sum_list (take (length (xs @ [x])) (xs @ [x])))"
    using snoc.prems by blast
  then have "fl (sum_list xs + x) = Num (sum_list xs + x)" by simp
  with ih show ?case by simp
qed

lemma roundedMean_exact:
  assumes "0 < n"
      and "\<forall>k \<le> n. fl (sum_list (take k (drop (length xs - n) xs))) =
                     Num (sum_list (take k (drop (length xs - n) xs)))"
      and "fl (trailing_mean n xs) = Num (trailing_mean n xs)"
  shows "roundedMean n xs = Num (trailing_mean n xs)"
proof -
  let ?ys = "drop (length xs - n) xs"
  have "length ?ys \<le> n" by simp
  with assms(2) have "\<forall>k \<le> length ?ys. fl (sum_list (take k ?ys)) = Num (sum_list (take k ?ys))"
    by auto
  then have "foldl (\<lambda>a b. js_add a (Num b)) (Num 0) ?ys = Num (sum_list ?ys)"
    by (rule foldl_add_exact)
  then show ?thesis
    using assms(1,3) by (simp add: roundedMean_def trailing_mean_def)
qed

text \<open>
  Claim C2, as the code has it. For window lengths \<open>f < s\<close> and a series as long as a
  JavaScript array can be: a series shorter than \<open>s\<close> gives \<open>HOLD\<close> with a \<open>null\<close> slow
  average, and the fast average is \<open>null\<close> only when the series is shorter than \<open>f\<close> too
  (otherwise it is the rounded mean of the last \<open>f\<close> samples). A series of at least \<open>s\<close>
  samples gives the two trailing means as double arithmetic computes them (\<open>roundedMean\<close>:
  the samples added from 0, left to right, each sum rounded, the total divided by the
  window and rounded), and \<open>LONG\<close>, \<open>SHORT\<close> or \<open>HOLD\<close> as the fast of these two doubles is
  above, below or equal to the slow one. (By \<open>roundedMean_exact\<close> these are the arithmetic
  means wherever the sums and the quotient need no rounding.)
\<close>

theorem computeSignal_windows:
  assumes "f < s" and "length closes < 2 ^ 32"
  shows "computeSignal closes (Num (rat_of_nat f)) (Num (rat_of_nat s)) =
           (if length closes < s
            then \<lparr>signal = HOLD,
                  fast = (if length closes < f then None else Some (roundedMean f closes)),
                  slow = None\<rparr>
            else \<lparr>signal = (if js_gt (roundedMean f closes) (roundedMean s closes) then LONG
                            else if js_lt (roundedMean f closes) (roundedMean s closes) then SHORT
                            else HOLD),
                  fast = Some (roundedMean f closes),
                  slow = Some (roundedMean s closes)\<rparr>)"
proof -
  have len: "length closes \<le> 2 ^ 53" using assms(2) by simp
  show ?thesis
  proof (cases "length closes < s")
    case True
    then have slow: "sma closes (Num (rat_of_nat s)) = None" by (rule sma_short)
    show ?thesis
    proof (cases "length closes < f")
      case short: True
      then have "sma closes (Num (rat_of_nat f)) = None" by (rule sma_short)
      with slow True short show ?thesis by (simp add: computeSignal_def)
    next
      case long: False
      then have "sma closes (Num (rat_of_nat f)) = Some (roundedMean f closes)"
        using len by (simp add: sma_full)
      with slow True long show ?thesis by (simp add: computeSignal_def)
    qed
  next
    case False
    then have "sma closes (Num (rat_of_nat s)) = Some (roundedMean s closes)"
      using len by (simp add: sma_full)
    moreover have "sma closes (Num (rat_of_nat f)) = Some (roundedMean f closes)"
      using False assms(1) len by (simp add: sma_full)
    ultimately show ?thesis using False by (simp add: computeSignal_def)
  qed
qed

text \<open>The end-to-end example of the specification: windows 2 and 3 over \<open>[1, 2, 3, 100]\<close>.\<close>

theorem computeSignal_windows_witness:
  "(2::nat) < 3 \<and> length [1, 2, 3, 100 :: rat] < 2 ^ 32 \<and>
   computeSignal [1, 2, 3, 100] (Num 2) (Num 3) =
     \<lparr>signal = LONG, fast = Some (Num (103 / 2)), slow = Some (Num 35)\<rparr>"
proof -
  have "roundedMean 2 [1, 2, 3, 100] = Num (103 / 2)" "roundedMean 3 [1, 2, 3, 100] = Num 35"
    by (simp_all add: roundedMean_def fl_numeral num_defs Let_def)
  then show ?thesis
    using computeSignal_windows [of 2 3 "[1, 2, 3, 100]"] by (simp add: js_gt_def)
qed

text \<open>
  Claim C2 as stated asks for \<open>null\<close> averages whenever the series is shorter than the
  slow window, and for the arithmetic means otherwise. With two samples and windows 2 and
  3 the fast average is \<open>1.5\<close>. And for the closes \<open>0.1\<close>, \<open>0.3\<close>, \<open>0.2\<close> with windows 1 and
  3 the arithmetic mean of the last sample is above that of all three, which would be
  \<open>LONG\<close>, whereas the sums of doubles give \<open>0.2\<close> against \<open>0.20000000000000004\<close>: the
  signal is \<open>SHORT\<close>.
\<close>

lemma tenths:
  "nearest (1 / 10) = 3602879701896397 / 36028797018963968"
  "nearest (3 / 10) = 5404319552844595 / 18014398509481984"
  "nearest (1 / 5) = 3602879701896397 / 18014398509481984"
  by (simp_all add: nearest_def num_defs Let_def)

theorem short_series_keeps_fast_average:
  "length [1, 2 :: rat] < 3 \<and>
   computeSignal [1, 2] (Num 2) (Num 3) =
     \<lparr>signal = HOLD, fast = Some (Num (3 / 2)), slow = None\<rparr> \<and>
   trailing_mean 3 [nearest (1 / 10), nearest (3 / 10), nearest (1 / 5)] <
     trailing_mean 1 [nearest (1 / 10), nearest (3 / 10), nearest (1 / 5)] \<and>
   computeSignal [nearest (1 / 10), nearest (3 / 10), nearest (1 / 5)] (Num 1) (Num 3) =
     \<lparr>signal = SHORT, fast = Some (Num (nearest (1 / 5))),
      slow = Some (Num (7205759403792795 / 36028797018963968))\<rparr>"
proof (intro conjI)
  show "length [1, 2 :: rat] < 3" by simp
  show "computeSignal [1, 2] (Num 2) (Num 3) =
     \<lparr>signal = HOLD, fast = Some (Num (3 / 2)), slow = None\<rparr>"
    by (simp add: computeSignal_def sma_def num_defs fl_numeral Let_def)
  show "trailing_mean 3 [nearest (1 / 10), nearest (3 / 10), nearest (1 / 5)] <
     trailing_mean 1 [nearest (1 / 10), nearest (3 / 10), nearest (1 / 5)]"
    by (simp add: trailing_mean_def tenths)
  show "computeSignal [nearest (1 / 10), nearest (3 / 10), nearest (1 / 5)] (Num 1) (Num 3) =
     \<lparr>signal = SHORT, fast = Some (Num (nearest (1 / 5))),
      slow = Some (Num (7205759403792795 / 36028797018963968))\<rparr>"
    unfolding tenths
    by (simp add: computeSignal_def sma_def num_defs fl_numeral Let_def)
qed

section \<open>Sanitized windows\<close>

lemma effectivePeriods_order:
  "js_le (Num 1) (fst (effectivePeriods cfg)) \<and>
   (max 1 (toNumber (strategyField fastPeriod cfg) 9) < 2 ^ 53 \<longrightarrow>
      js_lt (fst (effectivePeriods cfg)) (snd (effectivePeriods cfg)))"
proof -
  define a where "a = max 1 (toNumber (strategyField fastPeriod cfg) 9)"
  define b where "b = toNumber (strategyField slowPeriod cfg) 21"
  have eq: "effectivePeriods cfg = (Num a, js_max (js_add (Num a) (Num 1)) (Num b))"
    by (simp add: effectivePeriods_def Let_def a_def b_def)
  have a1: "1 \<le> a" by (simp add: a_def)
  have "js_lt (Num a) (js_max (js_add (Num a) (Num 1)) (Num b))" if "a < 2 ^ 53"
  proof -
    from fl_add_one [OF a1 that] obtain r where r: "fl (a + 1) = Num r" "a < r" by blast
    then show ?thesis by (simp add: js_max_def)
  qed
  with a1 show ?thesis unfolding eq a_def [symmetric] by simp
qed

text \<open>
  Claim C10. On every tick of an enabled bot that fetched its candles, the signal written
  to the tick's market data is computed with the sanitized windows: the fast one is
  \<open>max(1, toNumber(fastPeriod, 9))\<close>, the slow one \<open>max(fast + 1, toNumber(slowPeriod, 21))\<close>,
  where \<open>fast + 1\<close> is a sum of doubles. The fast window is at least 1, and it is strictly
  below the slow one whenever it is below \<open>2^53\<close>, whatever the stored values are.
  \<open>toNumber\<close> keeps a finite number and takes the default for anything else: for stored
  finite numbers \<open>a\<close> and \<open>b\<close> the windows are \<open>max(1, a)\<close> and \<open>max(max(1, a) + 1, b)\<close>.
\<close>

theorem windows_sanitized_every_tick:
  assumes "getBotById env = Inr ub"
      and "cfg = config (refresh ub ls)"
      and "enabled cfg"
      and "klines env = Inr ks"
      and "runBotTick env ls = Next ls'"
  shows "fst (effectivePeriods cfg) = Num (max 1 (toNumber (strategyField fastPeriod cfg) 9)) \<and>
         snd (effectivePeriods cfg) =
           js_max (js_add (fst (effectivePeriods cfg)) (Num 1))
                  (Num (toNumber (strategyField slowPeriod cfg) 21)) \<and>
         js_le (Num 1) (fst (effectivePeriods cfg)) \<and>
         (max 1 (toNumber (strategyField fastPeriod cfg) 9) < 2 ^ 53 \<longrightarrow>
            js_lt (fst (effectivePeriods cfg)) (snd (effectivePeriods cfg))) \<and>
         (\<forall>a b. strategy cfg = Some \<lparr>fastPeriod = JNumber (Num a), slowPeriod = JNumber (Num b)\<rparr>
            \<longrightarrow> effectivePeriods cfg =
                  (Num (max 1 a), js_max (js_add (Num (max 1 a)) (Num 1)) (Num b))) \<and>
         stMarketData (state ls') =
           Some (marketDataOf
                   (computeSignal (finiteCloses ks) (fst (effectivePeriods cfg))
                                  (snd (effectivePeriods cfg)))
                   (lastOf (finiteCloses ks)))"
proof -
  have tick: "catchBlock env (tryBody env (refresh ub ls)) = Next ls'"
    using assms(1,5) by (simp add: runBotTick_def)
  have "stMarketData (state ls') =
          stMarketData (state (recordMarketData (finiteCloses ks) (countCandle (refresh ub ls))))"
    using catchBlock_md [OF tick] tryBody_md [of "refresh ub ls" env ks] assms(2,3,4) by simp
  then have md: "stMarketData (state ls') =
           Some (marketDataOf
                   (computeSignal (finiteCloses ks) (fst (effectivePeriods cfg))
                                  (snd (effectivePeriods cfg)))
                   (lastOf (finiteCloses ks)))"
    using assms(2) by (simp add: recordMarketData_def tickSignal_def countCandle_def)
  have f: "fst (effectivePeriods cfg) = Num (max 1 (toNumber (strategyField fastPeriod cfg) 9))"
    by (simp add: effectivePeriods_def Let_def)
  have s: "snd (effectivePeriods cfg) =
             js_max (js_add (fst (effectivePeriods cfg)) (Num 1))
                    (Num (toNumber (strategyField slowPeriod cfg) 21))"
    by (simp add: effectivePeriods_def Let_def)
  have num: "\<forall>a b. strategy cfg =
                 Some \<lparr>fastPeriod = JNumber (Num a), slowPeriod = JNumber (Num b)\<rparr>
            \<longrightarrow> effectivePeriods cfg =
                  (Num (max 1 a), js_max (js_add (Num (max 1 a)) (Num 1)) (Num b))"
    by (simp add: effectivePeriods_def strategyField_def Let_def)
  from f s num md effectivePeriods_order [of cfg] show ?thesis
    by (intro conjI) blast+
qed

text \<open>
  A stored strategy with \<open>fastPeriod = 30\<close> and the text \<open>abc\<close> as \<open>slowPeriod\<close>: the tick
  computes with windows 30 and 31.
\<close>

theorem windows_sanitized_every_tick_witness:
  "\<exists>ls'. runBotTick
           (calmTick (Some (futuresBot\<lparr>strategy :=
              Some \<lparr>fastPeriod = JNumber (Num 30), slowPeriod = JString ''abc'' NaN\<rparr>\<rparr>)))
           (startLoop futuresBot (countersAt 0 0)) = Next ls' \<and>
         effectivePeriods (futuresBot\<lparr>strategy :=
              Some \<lparr>fastPeriod = JNumber (Num 30), slowPeriod = JString ''abc'' NaN\<rparr>\<rparr>)
           = (Num 30, Num 31) \<and>
         js_lt (Num 30) (Num 31) \<and>
         stMarketData (state ls') =
           Some \<lparr>signal = HOLD, fast = None, slow = None, lastClose = Some 100\<rparr>"
proof -
  let ?cfg = "futuresBot\<lparr>strategy :=
                Some \<lparr>fastPeriod = JNumber (Num 30), slowPeriod = JString ''abc'' NaN\<rparr>\<rparr>"
  let ?env = "calmTick (Some ?cfg)"
  let ?ls = "startLoop futuresBot (countersAt 0 0)"
  have win: "effectivePeriods ?cfg = (Num 30, Num 31)"
    by (simp add: effectivePeriods_def strategyField_def js_defs Let_def)
  have sg: "tickSignal ?cfg [1, 2, 3, 100] = \<lparr>signal = HOLD, fast = None, slow = None\<rparr>"
    by (simp add: tickSignal_def win computeSignal_def sma_def)
  have cfg: "enabled ?cfg" "market ?cfg = ''futures''" "\<not> dryRun ?cfg"
      "virtualBalance ?cfg = None" "risk ?cfg = risk futuresBot"
      "position ?cfg = position futuresBot"
      "riskField orderQuoteAmount ?cfg = JNumber (Num 20)"
      "riskField quantityStep ?cfg = JNumber (fl (1 / 10000))"
    by (simp_all add: bot_simps riskField_def)
  obtain ls' where tick: "runBotTick ?env ?ls = Next ls'"
    by (simp add: tick_defs sg cfg default_qty [OF cfg(7,8)] bot_simps js_defs fifth_val
        Let_def del: botConfig.simps)
  have "stMarketData (state ls') =
           Some (marketDataOf
                   (computeSignal (finiteCloses [Num 1, Num 2, Num 3, Num 100])
                      (fst (effectivePeriods ?cfg)) (snd (effectivePeriods ?cfg)))
                   (lastOf (finiteCloses [Num 1, Num 2, Num 3, Num 100])))"
    using windows_sanitized_every_tick [of ?env "Some ?cfg" ?cfg ?ls
        "[Num 1, Num 2, Num 3, Num 100]" ls'] tick cfg(1)
    by (simp add: calmTick_def refresh_def del: botConfig.simps)
  then have "stMarketData (state ls') =
           Some \<lparr>signal = HOLD, fast = None, slow = None, lastClose = Some 100\<rparr>"
    using sg by (simp add: tickSignal_def marketDataOf_def finiteCloses_def lastOf_def)
  with win tick show ?thesis by simp
qed

text \<open>
  Claim C10 as stated has the fast window strictly below the slow one for every stored
  configuration. A stored \<open>fastPeriod\<close> of \<open>1e16\<close> is a finite number, which \<open>toNumber\<close>
  keeps; adding 1 to it gives \<open>1e16\<close> again, so with \<open>slowPeriod = 21\<close> both windows are
  \<open>1e16\<close>.
\<close>

theorem huge_window_is_not_raised:
  "effectivePeriods (futuresBot\<lparr>strategy :=
      Some \<lparr>fastPeriod = JNumber (Num (10 ^ 16)), slowPeriod = JNumber (Num 21)\<rparr>\<rparr>) =
     (Num (10 ^ 16), Num (10 ^ 16)) \<and>
   \<not> js_lt (Num (10 ^ 16)) (Num (10 ^ 16))"
  by (simp add: effectivePeriods_def strategyField_def num_defs js_defs Let_def)

section \<open>The virtual ledger\<close>

text \<open>
  Claim C5, as the code has it. \<open>updateVirtualBalance\<close> works on doubles: a \<open>BUY\<close> of \<open>q\<close> at
  \<open>p\<close> takes the rounded product \<open>q * p\<close> from the virtual quote balance and adds \<open>q\<close> to the
  virtual base balance, each result rounded; a \<open>SELL\<close> adds and subtracts the same amounts.
  When the product and the new balances are doubles themselves, the balances change by
  exactly \<open>q * p\<close> and \<open>q\<close>. The initial balance is never touched, and the new ledger is a
  function of the old ledger, the side, \<open>q\<close> and \<open>p\<close>. The dry-run trade step of a spot tick
  sends no order, cannot throw and applies exactly this update to the loop's configuration.
  (A missing ledger counts as the default one: 1000 quote units, no base.)
\<close>

theorem dry_run_ledger_update:
  "currentQuoteBalance (ledgerOf (updateVirtualBalance cfg ''BUY'' q p)) =
     js_sub (currentQuoteBalance (ledgerOf cfg)) (js_mul q p) \<and>
   currentBaseBalance (ledgerOf (updateVirtualBalance cfg ''BUY'' q p)) =
     js_add (currentBaseBalance (ledgerOf cfg)) q \<and>
   currentQuoteBalance (ledgerOf (updateVirtualBalance cfg ''SELL'' q p)) =
     js_add (currentQuoteBalance (ledgerOf cfg)) (js_mul q p) \<and>
   currentBaseBalance (ledgerOf (updateVirtualBalance cfg ''SELL'' q p)) =
     js_sub (currentBaseBalance (ledgerOf cfg)) q \<and>
   initialQuoteBalance (ledgerOf (updateVirtualBalance cfg sd q p)) =
     initialQuoteBalance (ledgerOf cfg) \<and>
   (currentQuoteBalance (ledgerOf cfg) = Num a \<and> currentBaseBalance (ledgerOf cfg) = Num b \<and>
    fl (x * y) = Num (x * y) \<longrightarrow>
      (fl (a - x * y) = Num (a - x * y) \<longrightarrow>
         currentQuoteBalance (ledgerOf (updateVirtualBalance cfg ''BUY'' (Num x) (Num y))) =
           Num (a - x * y)) \<and>
      (fl (b + x) = Num (b + x) \<longrightarrow>
         currentBaseBalance (ledgerOf (updateVirtualBalance cfg ''BUY'' (Num x) (Num y))) =
           Num (b + x)) \<and>
      (fl (a + x * y) = Num (a + x * y) \<longrightarrow>
         currentQuoteBalance (ledgerOf (updateVirtualBalance cfg ''SELL'' (Num x) (Num y))) =
           Num (a + x * y)) \<and>
      (fl (b - x) = Num (b - x) \<longrightarrow>
         currentBaseBalance (ledgerOf (updateVirtualBalance cfg ''SELL'' (Num x) (Num y))) =
           Num (b - x))) \<and>
   (ledgerOf cfg = ledgerOf cfg' \<longrightarrow>
      ledgerOf (updateVirtualBalance cfg sd q p) = ledgerOf (updateVirtualBalance cfg' sd q p)) \<and>
   (dryRun (config ls) \<longrightarrow>
      fst (spotTrade env sd q (Some c) sig ls) = None \<and>
      orders (snd (spotTrade env sd q (Some c) sig ls)) = orders ls \<and>
      config (snd (spotTrade env sd q (Some c) sig ls)) =
        updateVirtualBalance (config ls) sd q (Num c))"
  by (simp add: updateVirtualBalance_def ledgerOf_def spotTrade_def js_sub_Num Let_def)

text \<open>
  Buying 1/2 at 100 from the default ledger leaves 950 quote units and 1/2 base; selling
  it again at 100 gives the default ledger back. A dry-run spot tick with a \<open>LONG\<close> signal
  buys \<open>0.2\<close> at the last close of 100: it sends nothing and its ledger holds 980 quote
  units and \<open>0.2\<close> base.
\<close>

theorem dry_run_ledger_update_witness:
  "ledgerOf (updateVirtualBalance (defaultBotConfig ''bot-1'') ''BUY'' (Num (1 / 2)) (Num 100)) =
     \<lparr>initialQuoteBalance = Num 1000, currentQuoteBalance = Num 950,
      currentBaseBalance = Num (1 / 2)\<rparr> \<and>
   ledgerOf (updateVirtualBalance
               (updateVirtualBalance (defaultBotConfig ''bot-1'') ''BUY'' (Num (1 / 2)) (Num 100))
               ''SELL'' (Num (1 / 2)) (Num 100)) = defaultLedger \<and>
   orders (snd (spotTrade (calmTick None) ''BUY'' (Num (1 / 2)) (Some 100) LONG
                  (startLoop (defaultBotConfig ''bot-1'') (countersAt 0 0)))) = [] \<and>
   (\<exists>ls'. runBotTick (calmTick (Some drySpotBot)) (startLoop drySpotBot (countersAt 0 0)) = Next ls' \<and>
          orders ls' = [] \<and>
          map_option action (tickDecision ls') = Some ''DRY_BUY'' \<and>
          virtualBalance (config ls') =
            Some \<lparr>initialQuoteBalance = Num 1000, currentQuoteBalance = Num 980,
                  currentBaseBalance = fifth\<rparr> \<and>
          saved ls' = [config ls'])"
proof -
  have half: "fl (1 / 2) = Num (1 / 2)" by (simp add: num_defs Let_def)
  have led: "ledgerOf (defaultBotConfig ''bot-1'') = defaultLedger"
    by (simp add: ledgerOf_def defaultBotConfig_def)
  have dry: "dryRun (config (startLoop (defaultBotConfig ''bot-1'') (countersAt 0 0)))"
    by (simp add: startLoop_def defaultBotConfig_def)
  note inst = dry_run_ledger_update [where cfg = "defaultBotConfig ''bot-1''"
      and q = "Num (1 / 2)" and p = "Num 100" and sd = "''BUY''" and a = 1000 and b = 0
      and x = "1 / 2" and y = 100 and cfg' = "defaultBotConfig ''bot-1''"
      and ls = "startLoop (defaultBotConfig ''bot-1'') (countersAt 0 0)"
      and env = "calmTick None" and c = 100 and sig = LONG]
  have b1: "currentQuoteBalance (ledgerOf (updateVirtualBalance (defaultBotConfig ''bot-1'')
               ''BUY'' (Num (1 / 2)) (Num 100))) = Num 950"
    using inst [THEN conjunct1] by (simp add: led defaultLedger_def js_sub_Num fl_numeral)
  have b2: "currentBaseBalance (ledgerOf (updateVirtualBalance (defaultBotConfig ''bot-1'')
               ''BUY'' (Num (1 / 2)) (Num 100))) = Num (1 / 2)"
    using inst [THEN conjunct2, THEN conjunct1] by (simp add: led defaultLedger_def half)
  have b3: "initialQuoteBalance (ledgerOf (updateVirtualBalance (defaultBotConfig ''bot-1'')
               ''BUY'' (Num (1 / 2)) (Num 100))) = Num 1000"
    using inst [THEN conjunct2, THEN conjunct2, THEN conjunct2, THEN conjunct2, THEN conjunct1]
    by (simp add: led defaultLedger_def)
  have buy: "ledgerOf (updateVirtualBalance (defaultBotConfig ''bot-1'') ''BUY'' (Num (1 / 2))
               (Num 100)) =
     \<lparr>initialQuoteBalance = Num 1000, currentQuoteBalance = Num 950,
      currentBaseBalance = Num (1 / 2)\<rparr>"
    by (rule virtualLedger.equality) (simp_all add: b1 b2 b3)
  have sell: "ledgerOf (updateVirtualBalance
               (updateVirtualBalance (defaultBotConfig ''bot-1'') ''BUY'' (Num (1 / 2)) (Num 100))
               ''SELL'' (Num (1 / 2)) (Num 100)) = defaultLedger"
    by (simp add: updateVirtualBalance_def ledgerOf_def defaultBotConfig_def defaultLedger_def
        js_sub_Num half fl_numeral)
  have none: "orders (snd (spotTrade (calmTick None) ''BUY'' (Num (1 / 2)) (Some 100) LONG
                  (startLoop (defaultBotConfig ''bot-1'') (countersAt 0 0)))) = []"
    using inst [THEN conjunct2, THEN conjunct2, THEN conjunct2, THEN conjunct2, THEN conjunct2,
        THEN conjunct2, THEN conjunct2] dry
    by (simp add: startLoop_def)
  have q2: "js_add (Num 0) fifth = fifth"
    by (simp add: fifth_val num_defs Let_def)
  have c20: "js_mul fifth (Num 100) = Num 20"
    by (simp add: fifth_val num_defs Let_def)
  have pos: "js_lt (Num 0) fifth"
    by (simp add: fifth_val)
  have tick: "\<exists>ls'. runBotTick (calmTick (Some drySpotBot)) (startLoop drySpotBot (countersAt 0 0))
                 = Next ls' \<and>
          orders ls' = [] \<and>
          map_option action (tickDecision ls') = Some ''DRY_BUY'' \<and>
          virtualBalance (config ls') =
            Some \<lparr>initialQuoteBalance = Num 1000, currentQuoteBalance = Num 980,
                  currentBaseBalance = fifth\<rparr> \<and>
          saved ls' = [config ls']"
    by (simp add: tick_defs calm_values bot_simps updateVirtualBalance_def ledgerOf_def
        defaultLedger_def q2 c20 pos js_sub_Num fl_numeral js_gt_def Let_def)
  from buy sell none tick show ?thesis by blast
qed

text \<open>
  Claim C5 as stated has a \<open>SELL\<close> undo a \<open>BUY\<close> exactly, and every dry-run order move the
  ledger. From a base balance of \<open>0.3\<close>, buying \<open>0.1\<close> at 3 and selling it again leaves
  \<open>0.30000000000000004\<close> base (and the quote balance went through \<open>999.7\<close>, which is not
  1000 less the exact cost). And a dry-run futures tick that decides \<open>DRY_BUY\<close> leaves
  its ledger as it was: the futures branch never calls \<open>updateVirtualBalance\<close>.
\<close>

theorem sell_does_not_undo_buy:
  "currentBaseBalance (ledgerOf threeTenths) = Num (5404319552844595 / 18014398509481984) \<and>
   currentBaseBalance (ledgerOf
      (updateVirtualBalance (updateVirtualBalance threeTenths ''BUY'' (fl (1 / 10)) (Num 3))
         ''SELL'' (fl (1 / 10)) (Num 3))) = Num (1351079888211149 / 4503599627370496) \<and>
   currentBaseBalance (ledgerOf
      (updateVirtualBalance (updateVirtualBalance threeTenths ''BUY'' (fl (1 / 10)) (Num 3))
         ''SELL'' (fl (1 / 10)) (Num 3))) \<noteq> currentBaseBalance (ledgerOf threeTenths) \<and>
   currentQuoteBalance (ledgerOf (updateVirtualBalance threeTenths ''BUY'' (fl (1 / 10)) (Num 3))) =
     Num (4396727097150669 / 4398046511104) \<and>
   1000 - nearest (1 / 10) * 3 \<noteq> 4396727097150669 / 4398046511104 \<and>
   map_option action (tickDecision (stateAfter
      (runBotTick (calmTick (Some dryFuturesBot)) (startLoop dryFuturesBot (countersAt 5 0))))) =
     Some ''DRY_BUY'' \<and>
   virtualBalance (config (stateAfter
      (runBotTick (calmTick (Some dryFuturesBot)) (startLoop dryFuturesBot (countersAt 5 0))))) =
     Some defaultLedger"
proof (intro conjI)
  have v: "fl (1 / 10) = Num (3602879701896397 / 36028797018963968)"
          "fl (3 / 10) = Num (5404319552844595 / 18014398509481984)"
    by (simp_all add: num_defs Let_def)
  show "currentBaseBalance (ledgerOf threeTenths) = Num (5404319552844595 / 18014398509481984)"
    by (simp add: threeTenths_def ledgerOf_def v)
  show "currentBaseBalance (ledgerOf
      (updateVirtualBalance (updateVirtualBalance threeTenths ''BUY'' (fl (1 / 10)) (Num 3))
         ''SELL'' (fl (1 / 10)) (Num 3))) = Num (1351079888211149 / 4503599627370496)"
    by (simp add: threeTenths_def updateVirtualBalance_def ledgerOf_def v js_sub_Num num_defs
        Let_def)
  show "currentBaseBalance (ledgerOf
      (updateVirtualBalance (updateVirtualBalance threeTenths ''BUY'' (fl (1 / 10)) (Num 3))
         ''SELL'' (fl (1 / 10)) (Num 3))) \<noteq> currentBaseBalance (ledgerOf threeTenths)"
    by (simp add: threeTenths_def updateVirtualBalance_def ledgerOf_def v js_sub_Num num_defs
        Let_def)
  show "currentQuoteBalance (ledgerOf (updateVirtualBalance threeTenths ''BUY'' (fl (1 / 10)) (Num 3))) =
     Num (4396727097150669 / 4398046511104)"
    by (simp add: threeTenths_def updateVirtualBalance_def ledgerOf_def v js_sub_Num num_defs
        Let_def)
  show "1000 - nearest (1 / 10) * 3 \<noteq> 4396727097150669 / 4398046511104"
    by (simp add: tenths)
  show "map_option action (tickDecision (stateAfter
      (runBotTick (calmTick (Some dryFuturesBot)) (startLoop dryFuturesBot (countersAt 5 0))))) =
     Some ''DRY_BUY''"
    by (simp add: calm_eval)
  show "virtualBalance (config (stateAfter
      (runBotTick (calmTick (Some dryFuturesBot)) (startLoop dryFuturesBot (countersAt 5 0))))) =
     Some defaultLedger"
    by (simp add: calm_eval)
qed

section \<open>The loss breaker\<close>

text \<open>
  Claim C3, as the code has it. On a futures tick of an enabled bot whose fetches succeed,
  let \<open>w\<close> be the wallet balance fetched in this tick. Each limit is \<open>lossLimit\<close>: the
  configured percentage of \<open>w\<close>, with 5 (daily) and 10 (cumulative) in the place of a
  configured value that is 0 or absent, the product and its hundredth each rounded to a
  double. If the daily accumulator (after its 24-hour reset) or the cumulative one has
  reached its limit, the tick does not crash, the snapshot it writes has status \<open>BLOCKED\<close>,
  the tick takes no decision and sends no order, and the snapshot keeps the decision of the
  last tick that took one; otherwise no snapshot of the tick is \<open>BLOCKED\<close>.
\<close>

theorem loss_breaker_blocks_tick:
  assumes "getBotById env = Inr ub"
      and "klines env = Inr ks"
      and "setLeverage env = None"
      and "futuresAccount env = Inr w"
      and "positionRisk env = Inr pos"
      and "upsertInTry env = None"
      and "cfg = config (refresh ub ls)"
      and "enabled cfg"
      and "market cfg = ''futures''"
      and "risk cfg = Some r"
  shows "(lossLimitReached (runtime ls) w r (dateNow env) \<longrightarrow>
            (\<exists>ls' row. runBotTick env ls = Next ls' \<and> snapshot ls' = Some row \<and>
               rowStatus row = Some ''BLOCKED'' \<and> rowLastDecision row = lastDecision ls \<and>
               tickDecision ls' = None \<and> lastDecision ls' = lastDecision ls \<and>
               orders ls' = orders ls)) \<and>
         (\<not> lossLimitReached (runtime ls) w r (dateNow env) \<longrightarrow>
            (\<forall>ls'. runBotTick env ls = Next ls' \<longrightarrow>
               (\<exists>row. snapshot ls' = Some row \<and> rowStatus row \<noteq> Some ''BLOCKED'')))"
proof -
  let ?E = "entered ub ks ls"
  let ?sig = "signal (tickSignal (config (refresh ub ls)) (finiteCloses ks))"
  have path: "runBotTick env ls =
      catchBlock env (futuresDecide env ?sig (finiteCloses ks) w pos ?E)"
    using assms by (intro futures_tick_path) simp_all
  have verdict: "allowed (snd (checkMaxLoss (runtime ?E) cfg (fl w) (dateNow env))) =
      (\<not> lossLimitReached (runtime ls) w r (dateNow env))"
    using checkMaxLoss_verdict [OF assms(10), of "runtime ls" w "dateNow env"]
    by (simp add: entered_simps checkMaxLoss_count_irrelevant)
  show ?thesis
  proof (cases "lossLimitReached (runtime ls) w r (dateNow env)")
    case True
    then obtain rsn loss lim where
      den: "snd (checkMaxLoss (runtime ?E) cfg (fl w) (dateNow env)) = Denied rsn loss lim"
      using verdict
      by (cases "snd (checkMaxLoss (runtime ?E) cfg (fl w) (dateNow env))") simp_all
    have "\<exists>ls' row. runBotTick env ls = Next ls' \<and> snapshot ls' = Some row \<and>
               rowStatus row = Some ''BLOCKED'' \<and> rowLastDecision row = lastDecision ls \<and>
               tickDecision ls' = None \<and> lastDecision ls' = lastDecision ls \<and>
               orders ls' = orders ls"
      using den assms(6,7)
      by (simp add: path futuresDecide_def Let_def entered_simps upsertBotState_def
          snapshot_def stateToRow_def)
    with True show ?thesis by simp
  next
    case False
    then have al: "snd (checkMaxLoss (runtime ?E) cfg (fl w) (dateNow env)) = Allowed"
      using verdict
      by (cases "snd (checkMaxLoss (runtime ?E) cfg (fl w) (dateNow env))") simp_all
    have "\<exists>row. snapshot ls' = Some row \<and> rowStatus row \<noteq> Some ''BLOCKED''"
      if "runBotTick env ls = Next ls'" for ls'
    proof -
      from that al assms(7) obtain X where
        "catchBlock env (andThen X (finishTick env)) = Next ls'"
        by (simp add: path futuresDecide_def Let_def entered_simps)
      from catch_finish_status [OF this] show ?thesis by auto
    qed
    with False show ?thesis by simp
  qed
qed

text \<open>
  The example of the specification: wallet 1000 and a daily limit of 5 percent, a limit
  of 50. A loss of 50.1 blocks the tick, a loss of 49.9 does not.
\<close>

lemma example_losses:
  "fl (501 / 10) = Num (7050948166601933 / 140737488355328)"
  "fl (499 / 10) = Num (7022800668930867 / 140737488355328)"
  by (simp_all add: num_defs Let_def)

lemma example_limits:
  "lossLimit 1000 (JNumber (Num 5)) 5 = Num 50"
  "lossLimit 1000 (JNumber (Num 10)) 10 = Num 100"
  by (simp_all add: lossLimit_def orDefault_def fl_numeral)

theorem loss_breaker_blocks_tick_witness:
  "lossLimit 1000 (JNumber (Num 5)) 5 = Num 50 \<and>
   (\<exists>ls' row. runBotTick (calmTick (Some futuresBot)) (startLoop futuresBot (lossesAt (501 / 10)))
                  = Next ls' \<and>
               snapshot ls' = Some row \<and> rowStatus row = Some ''BLOCKED'' \<and>
               tickDecision ls' = None \<and> orders ls' = []) \<and>
   (\<exists>ls' row. runBotTick (calmTick (Some futuresBot)) (startLoop futuresBot (lossesAt (499 / 10)))
                  = Next ls' \<and>
               snapshot ls' = Some row \<and> rowStatus row = Some ''RUNNING'')"
proof -
  let ?env = "calmTick (Some futuresBot)"
  let ?r = "\<lparr>orderQuoteAmount = JNumber (Num 20), leverage = JNumber (Num 3),
             quantityStep = JNumber (fl (1 / 10000)),
             stopLossPercent = JNumber (Num 1),
             takeProfitPercent = JNumber (Num (3 / 2)),
             maxDailyLossPercent = JNumber (Num 5),
             maxTotalLossPercent = JNumber (Num 10)\<rparr>"
  have both: "(lossLimitReached (runtime ls) 1000 ?r (dateNow ?env) \<longrightarrow>
            (\<exists>ls' row. runBotTick ?env ls = Next ls' \<and> snapshot ls' = Some row \<and>
               rowStatus row = Some ''BLOCKED'' \<and> rowLastDecision row = lastDecision ls \<and>
               tickDecision ls' = None \<and> lastDecision ls' = lastDecision ls \<and>
               orders ls' = orders ls)) \<and>
         (\<not> lossLimitReached (runtime ls) 1000 ?r (dateNow ?env) \<longrightarrow>
            (\<forall>ls'. runBotTick ?env ls = Next ls' \<longrightarrow>
               (\<exists>row. snapshot ls' = Some row \<and> rowStatus row \<noteq> Some ''BLOCKED'')))" for ls
    by (rule loss_breaker_blocks_tick [where ub = "Some futuresBot"
          and ks = "[Num 1, Num 2, Num 3, Num 100]" and pos = None and cfg = futuresBot])
       (simp_all add: calmTick_def refresh_def bot_simps)
  have "lossLimitReached (runtime (startLoop futuresBot (lossesAt (501 / 10)))) 1000 ?r
          (dateNow ?env)"
    by (simp add: lossLimitReached_def dailyLossAt_def lossesAt_def countersAt_def
        calmTick_def startLoop_def dayMs_def example_limits example_losses js_ge_def)
  with both [of "startLoop futuresBot (lossesAt (501 / 10))"]
  have blocked: "\<exists>ls' row. runBotTick ?env (startLoop futuresBot (lossesAt (501 / 10))) = Next ls' \<and>
               snapshot ls' = Some row \<and> rowStatus row = Some ''BLOCKED'' \<and>
               tickDecision ls' = None \<and> orders ls' = []"
    by (auto simp: startLoop_def)
  have running: "\<exists>ls' row. runBotTick ?env (startLoop futuresBot (lossesAt (499 / 10))) = Next ls' \<and>
               snapshot ls' = Some row \<and> rowStatus row = Some ''RUNNING''"
    by (simp add: calm_eval lossesAt_def example_losses)
  from blocked running example_limits(1) show ?thesis by blast
qed

text \<open>
  Claim C3 as stated takes the limit to be the configured percentage of the balance and
  has the blocked tick's decision be \<open>NONE\<close>. Three ticks of the futures bot where that
  fails. (1) A configured \<open>maxDailyLossPercent\<close> of 0 puts the limit at 0, which a daily
  loss of 10 has reached; \<open>checkMaxLoss\<close> reads the 0 as no setting and works with 5
  percent, so the tick (the sixth of the loop, its last order placed before the first)
  reports \<open>RUNNING\<close> and sends the entry order. (2) With a wallet of 120.18 and 5 percent
  the limit is 6.009, which a daily loss of the double \<open>6.009\<close> has reached; the doubles
  give \<open>(120.18 * 5) / 100 = 6.009000000000001\<close>, and the tick reports \<open>RUNNING\<close>. (3) A tick
  that closes a long position at a loss of 60 is followed by a tick that is \<open>BLOCKED\<close>
  (wallet 1000); the snapshot of the blocked tick holds the decision \<open>CLOSE_STOP_LOSS\<close>
  of the tick before, not \<open>NONE\<close>.
\<close>

lemma small_wallet_values:
  "fl (6009 / 50) = Num (2114228918817915 / 17592186044416)"
  "fl (6009 / 1000) = Num (422845783763583 / 70368744177664)"
  "nearest (6009 / 1000) = 422845783763583 / 70368744177664"
  "lossLimit (6009 / 50) (JNumber (Num 5)) 5 = Num (6765532540217329 / 1125899906842624)"
proof -
  show a: "fl (6009 / 50) = Num (2114228918817915 / 17592186044416)"
    by (simp add: num_defs Let_def)
  show b: "fl (6009 / 1000) = Num (422845783763583 / 70368744177664)"
    by (simp add: num_defs Let_def)
  show "nearest (6009 / 1000) = 422845783763583 / 70368744177664"
    by (simp add: nearest_def b)
  show "lossLimit (6009 / 50) (JNumber (Num 5)) 5 = Num (6765532540217329 / 1125899906842624)"
    unfolding lossLimit_def a by (simp add: orDefault_def num_defs Let_def)
qed

lemma seventy_values:
  "roundedPnl (longAt 70) = Num (- 30)"
  by (simp add: roundedPnl_def longAt_def fl_numeral js_sub_Num num_defs Let_def)

theorem loss_limit_as_stated_fails:
  "1000 * 0 / 100 \<le> (10 :: rat) \<and>
   map_option rowStatus
     (snapshot (stateAfter (runBotTick (calmTick (Some zeroLimitBot))
        (startLoop zeroLimitBot ((countersAt 5 0)\<lparr>dailyLoss := Num 10\<rparr>))))) =
     Some (Some ''RUNNING'') \<and>
   orders (stateAfter (runBotTick (calmTick (Some zeroLimitBot))
        (startLoop zeroLimitBot ((countersAt 5 0)\<lparr>dailyLoss := Num 10\<rparr>)))) =
     [entryOrder ''BUY'' fifth] \<and>
   6009 / 50 * 5 / 100 \<le> nearest (6009 / 1000) \<and>
   map_option rowStatus
     (snapshot (stateAfter (runBotTick smallWalletTick
        (startLoop futuresBot ((countersAt 5 0)\<lparr>dailyLoss := fl (6009 / 1000)\<rparr>))))) =
     Some (Some ''RUNNING'') \<and>
   map rowStatus (written (stateAfter (runBot (startLoop futuresBot (countersAt 5 0))
        [tickWithPosition (longAt 70), calmTick (Some futuresBot)]))) =
     [Some ''RUNNING'', Some ''BLOCKED''] \<and>
   map (\<lambda>row. map_option action (rowLastDecision row))
     (written (stateAfter (runBot (startLoop futuresBot (countersAt 5 0))
        [tickWithPosition (longAt 70), calmTick (Some futuresBot)]))) =
     [Some ''CLOSE_STOP_LOSS'', Some ''CLOSE_STOP_LOSS'']"
proof (intro conjI)
  show "1000 * 0 / 100 \<le> (10 :: rat)" by simp
  show "map_option rowStatus
     (snapshot (stateAfter (runBotTick (calmTick (Some zeroLimitBot))
        (startLoop zeroLimitBot ((countersAt 5 0)\<lparr>dailyLoss := Num 10\<rparr>))))) =
     Some (Some ''RUNNING'')"
    by (simp add: calm_eval)
  show "orders (stateAfter (runBotTick (calmTick (Some zeroLimitBot))
        (startLoop zeroLimitBot ((countersAt 5 0)\<lparr>dailyLoss := Num 10\<rparr>)))) =
     [entryOrder ''BUY'' fifth]"
    by (simp add: calm_eval entryOrder_def)
  show "6009 / 50 * 5 / 100 \<le> nearest (6009 / 1000)"
    by (simp add: small_wallet_values)
  have lim: "js_div (js_mul (fl (6009 / 50)) (Num 5)) (Num 100) =
      Num (6765532540217329 / 1125899906842624)"
    using small_wallet_values(4) by (simp add: lossLimit_def orDefault_def)
  have lim2: "js_div (js_mul (fl (6009 / 50)) (Num 10)) (Num 100) =
      Num (6765532540217329 / 562949953421312)"
    unfolding small_wallet_values(1) by (simp add: num_defs Let_def)
  show "map_option rowStatus
     (snapshot (stateAfter (runBotTick smallWalletTick
        (startLoop futuresBot ((countersAt 5 0)\<lparr>dailyLoss := fl (6009 / 1000)\<rparr>))))) =
     Some (Some ''RUNNING'')"
    by (simp add: smallWalletTick_def tick_defs calm_values bot_simps lim lim2
        small_wallet_values(2) js_gt_def js_ge_def orZero_def fifth_val Let_def)
  have pnl: "js_mul (js_div (js_sub (Num 70) (Num 100)) (Num 100)) (Num 100) = Num (- 30)"
    using seventy_values by (simp add: roundedPnl_def longAt_def fl_numeral js_gt_def)
  have run: "runBot (startLoop futuresBot (countersAt 5 0))
        [tickWithPosition (longAt 70), calmTick (Some futuresBot)] = Next X \<Longrightarrow>
      map rowStatus (written X) = [Some ''RUNNING'', Some ''BLOCKED''] \<and>
      map (\<lambda>row. map_option action (rowLastDecision row)) (written X) =
        [Some ''CLOSE_STOP_LOSS'', Some ''CLOSE_STOP_LOSS'']" for X
    by (simp add: tickWithPosition_def longAt_def tick_defs calm_values bot_simps pnl
        fl_numeral js_gt_def js_ge_def orZero_def js_max_def Let_def)
      (auto simp: fl_numeral js_sub_Num)
  obtain X where X: "runBot (startLoop futuresBot (countersAt 5 0))
        [tickWithPosition (longAt 70), calmTick (Some futuresBot)] = Next X"
    by (simp add: tickWithPosition_def longAt_def tick_defs calm_values bot_simps pnl
        fl_numeral js_gt_def js_ge_def orZero_def js_max_def Let_def)
  from run [OF X] X
  show "map rowStatus (written (stateAfter (runBot (startLoop futuresBot (countersAt 5 0))
        [tickWithPosition (longAt 70), calmTick (Some futuresBot)]))) =
     [Some ''RUNNING'', Some ''BLOCKED'']"
    and "map (\<lambda>row. map_option action (rowLastDecision row))
     (written (stateAfter (runBot (startLoop futuresBot (countersAt 5 0))
        [tickWithPosition (longAt 70), calmTick (Some futuresBot)]))) =
     [Some ''CLOSE_STOP_LOSS'', Some ''CLOSE_STOP_LOSS'']"
    by simp_all
qed

section \<open>Stop-loss and take-profit\<close>

text \<open>
  Claim C4, as the code has it. On a futures tick that the loss breaker lets through, with
  an open position (size, entry price and mark price not 0): the profit in percent of the
  entry price is \<open>roundedPnl\<close>, the doubles' \<open>((mark - entry) / entry) * 100\<close>, negated for a
  short position; the thresholds are the configured \<open>stopLossPercent\<close> and
  \<open>takeProfitPercent\<close> (1 and 1.5 when 0 or absent). When that profit is at most minus
  the stop-loss, the tick decides a close of the whole position with reason \<open>STOP_LOSS\<close>;
  otherwise, when it is at least the take-profit, one with reason \<open>TAKE_PROFIT\<close>; whatever
  the candles (so whatever the signal) are. A live bot sends exactly one order for it, a
  reduce-only market order on the closing side for the full size; a dry-run bot records
  the close without sending. Between the thresholds the tick sends no reduce-only order
  and its decision is no stop-loss or take-profit one.
\<close>

theorem stop_loss_take_profit_close:
  assumes "getBotById env = Inr ub"
      and "klines env = Inr ks"
      and "setLeverage env = None"
      and "futuresAccount env = Inr w"
      and "positionRisk env = Inr (Some p)"
      and "cfg = config (refresh ub ls)"
      and "enabled cfg"
      and "market cfg = ''futures''"
      and "allowed (snd (checkMaxLoss (runtime ls) cfg (fl w) (dateNow env)))"
      and "risk cfg = Some r"
      and "fl (posAmt p) \<noteq> Num 0"
      and "fl (posEntryPrice p) \<noteq> Num 0"
      and "fl (posMarkPrice p) \<noteq> Num 0"
      and "runBotTick env ls = Next ls'"
      and "sl = orDefault (stopLossPercent r) 1"
      and "tp = orDefault (takeProfitPercent r) (3 / 2)"
  shows "(js_le (roundedPnl p) (js_neg sl) \<longrightarrow>
            tickDecision ls' = Some (closeDecision (dryRun cfg) ''STOP_LOSS'' p) \<and>
            orders ls' = orders ls @ (if dryRun cfg then [] else [closeOrder p])) \<and>
         (\<not> js_le (roundedPnl p) (js_neg sl) \<and> js_ge (roundedPnl p) tp \<longrightarrow>
            tickDecision ls' = Some (closeDecision (dryRun cfg) ''TAKE_PROFIT'' p) \<and>
            orders ls' = orders ls @ (if dryRun cfg then [] else [closeOrder p])) \<and>
         (\<not> js_le (roundedPnl p) (js_neg sl) \<and> \<not> js_ge (roundedPnl p) tp \<longrightarrow>
            filter isReduceOnly (orders ls') = filter isReduceOnly (orders ls) \<and>
            (\<exists>d. tickDecision ls' = Some d \<and> reason d \<noteq> ''STOP_LOSS'' \<and>
                 reason d \<noteq> ''TAKE_PROFIT'' \<and> pnl d = None))"
proof -
  let ?sig = "signal (tickSignal cfg (finiteCloses ks))"
  let ?sp = "toStatePosition (Some p)"
  obtain l where l: "config l = cfg" "orders l = orders ls"
      "orders ls' = orders (snd (futuresAct env ?sig (finiteCloses ks) ?sp l))"
      "tickDecision ls' = tickDecision (snd (futuresAct env ?sig (finiteCloses ks) ?sp l))"
    using allowed_tick_path [OF assms(1-9) assms(14)] by blast
  have amt: "positionAmt ?sp = fl (posAmt p)"
      "unrealizedProfit ?sp = Some (fl (posUnRealizedProfit p))"
    by (simp_all add: toStatePosition_def)
  have size: "js_gt (js_abs (fl (posAmt p))) (Num 0)"
    using assms(11) by (rule open_position_size)
  have verdict: "checkStopLossTakeProfit ?sp cfg =
           (if js_le (roundedPnl p) (js_neg sl)
            then Some \<lparr>closeReason = ''STOP_LOSS'', closePnl = roundedPnl p\<rparr>
            else if js_ge (roundedPnl p) tp
            then Some \<lparr>closeReason = ''TAKE_PROFIT'', closePnl = roundedPnl p\<rparr>
            else None)"
    unfolding assms(15,16) by (rule checkStopLossTakeProfit_verdict [OF assms(10-13)])
  have stop: "tickDecision ls' = Some (closeDecision (dryRun cfg) ''STOP_LOSS'' p) \<and>
            orders ls' = orders ls @ (if dryRun cfg then [] else [closeOrder p])"
    if "js_le (roundedPnl p) (js_neg sl)"
    using that size l verdict amt
    by (simp add: futuresAct_def futuresClose_effects closeDecision_def closeOrder_def)
  have take: "tickDecision ls' = Some (closeDecision (dryRun cfg) ''TAKE_PROFIT'' p) \<and>
            orders ls' = orders ls @ (if dryRun cfg then [] else [closeOrder p])"
    if "\<not> js_le (roundedPnl p) (js_neg sl)" "js_ge (roundedPnl p) tp"
    using that size l verdict amt
    by (simp add: futuresAct_def futuresClose_effects closeDecision_def closeOrder_def)
  have none: "filter isReduceOnly (orders ls') = filter isReduceOnly (orders ls) \<and>
            (\<exists>d. tickDecision ls' = Some d \<and> reason d \<noteq> ''STOP_LOSS'' \<and>
                 reason d \<noteq> ''TAKE_PROFIT'' \<and> pnl d = None)"
    if "\<not> js_le (roundedPnl p) (js_neg sl)" "\<not> js_ge (roundedPnl p) tp"
  proof -
    have "checkStopLossTakeProfit ?sp cfg = None" using that verdict by simp
    then have "futuresAct env ?sig (finiteCloses ks) ?sp l =
                 futuresEntry env ?sig (finiteCloses ks) (fl (posAmt p)) l"
      using l(1) by (simp add: futuresAct_def amt)
    then show ?thesis
      using futuresEntry_no_close [of env ?sig "finiteCloses ks" "fl (posAmt p)" l] l by simp
  qed
  from stop take none show ?thesis by blast
qed

text \<open>
  The example of the specification: a long position entered at 100 with a stop-loss of 1
  percent is closed at mark price 98.9 and left open at 99.1. The profits the doubles
  give are \<open>-1.0999999999999943\<close> and \<open>-0.9000000000000057\<close>.
\<close>

lemma longAt_simps:
  "posAmt (longAt m) = 2" "posEntryPrice (longAt m) = 100" "posMarkPrice (longAt m) = m"
  by (simp_all add: longAt_def)

lemma example_pnl:
  "roundedPnl (longAt (989 / 10)) = Num (- (38702809297715 / 35184372088832))"
  "roundedPnl (longAt (991 / 10)) = Num (- (31665934879949 / 35184372088832))"
  by (simp_all add: roundedPnl_def longAt_def fl_numeral js_sub_Num js_gt_def num_defs Let_def)

theorem stop_loss_take_profit_close_witness:
  "(\<exists>ls'. runBotTick (tickWithPosition (longAt (989 / 10))) (startLoop futuresBot (countersAt 0 0))
              = Next ls' \<and>
           tickDecision ls' =
             Some \<lparr>action = ''CLOSE_STOP_LOSS'', reason = ''STOP_LOSS'', qty = Num 2,
                   decSignal = None, lastPrice = None,
                   pnl = Some (Num (- (38702809297715 / 35184372088832)))\<rparr> \<and>
           orders ls' =
             [FuturesOrder \<lparr>side = ''SELL'', orderType = ''MARKET'', quantity = Num 2,
                            reduceOnly = True\<rparr>]) \<and>
   (\<exists>ls'. runBotTick (tickWithPosition (longAt (991 / 10))) (startLoop futuresBot (countersAt 0 0))
              = Next ls' \<and>
           filter isReduceOnly (orders ls') = [])"
proof -
  let ?ls = "startLoop futuresBot (countersAt 0 0)"
  have marks: "fl (989 / 10) = Num (3479734399585485 / 35184372088832)"
              "fl (991 / 10) = Num (3486771274003251 / 35184372088832)"
    by (simp_all add: num_defs Let_def)
  have inst: "(js_le (roundedPnl (longAt m)) (js_neg (Num 1)) \<longrightarrow>
            tickDecision ls' = Some (closeDecision (dryRun futuresBot) ''STOP_LOSS'' (longAt m)) \<and>
            orders ls' = orders ?ls @ (if dryRun futuresBot then [] else [closeOrder (longAt m)])) \<and>
         (\<not> js_le (roundedPnl (longAt m)) (js_neg (Num 1)) \<and>
          js_ge (roundedPnl (longAt m)) (Num (3 / 2)) \<longrightarrow>
            tickDecision ls' = Some (closeDecision (dryRun futuresBot) ''TAKE_PROFIT'' (longAt m)) \<and>
            orders ls' = orders ?ls @ (if dryRun futuresBot then [] else [closeOrder (longAt m)])) \<and>
         (\<not> js_le (roundedPnl (longAt m)) (js_neg (Num 1)) \<and>
          \<not> js_ge (roundedPnl (longAt m)) (Num (3 / 2)) \<longrightarrow>
            filter isReduceOnly (orders ls') = filter isReduceOnly (orders ?ls) \<and>
            (\<exists>d. tickDecision ls' = Some d \<and> reason d \<noteq> ''STOP_LOSS'' \<and>
                 reason d \<noteq> ''TAKE_PROFIT'' \<and> pnl d = None))"
    if "fl m \<noteq> Num 0" and "runBotTick (tickWithPosition (longAt m)) ?ls = Next ls'" for m ls'
    using that
    by (intro stop_loss_take_profit_close [where env = "tickWithPosition (longAt m)"
          and ub = "Some futuresBot" and ks = "[Num 1, Num 2, Num 3, Num 100]" and w = 1000
          and cfg = futuresBot and r = "the (risk futuresBot)"])
       (simp_all add: calmTick_def countersAt_def longAt_def tickWithPosition_def refresh_def
          startLoop_def bot_simps checkMaxLoss_def orDefault_def dayMs_def fl_numeral js_ge_def
          Let_def)
  obtain a where a: "runBotTick (tickWithPosition (longAt (989 / 10))) ?ls = Next a"
    using example_pnl(1)
    by (simp add: tickWithPosition_def longAt_def roundedPnl_def tick_defs calm_values
        bot_simps marks fl_numeral js_gt_def js_ge_def orZero_def Let_def)
  obtain b where b: "runBotTick (tickWithPosition (longAt (991 / 10))) ?ls = Next b"
    using example_pnl(2)
    by (simp add: tickWithPosition_def longAt_def roundedPnl_def tick_defs calm_values
        bot_simps marks fl_numeral js_gt_def js_ge_def orZero_def Let_def)
  have "tickDecision a =
             Some \<lparr>action = ''CLOSE_STOP_LOSS'', reason = ''STOP_LOSS'', qty = Num 2,
                   decSignal = None, lastPrice = None,
                   pnl = Some (Num (- (38702809297715 / 35184372088832)))\<rparr> \<and>
        orders a =
             [FuturesOrder \<lparr>side = ''SELL'', orderType = ''MARKET'', quantity = Num 2,
                            reduceOnly = True\<rparr>]"
    using inst [OF _ a]
    by (simp add: example_pnl marks closeDecision_def closeOrder_def bot_simps longAt_simps
        startLoop_def fl_numeral js_gt_def)
  moreover have "filter isReduceOnly (orders b) = []"
    using inst [OF _ b] by (simp add: example_pnl marks js_ge_def startLoop_def)
  ultimately show ?thesis using a b by blast
qed

text \<open>
  Claim C4 as stated computes the profit from the prices and has every such tick force a
  reduce-only market close. (1) A long position entered at 3 and marked at 2.97 has lost
  exactly 1 percent, the stop-loss of the bot; the doubles give
  \<open>((2.97 - 3) / 3) * 100 = -0.9999999999999934\<close>, which is above \<open>-1\<close>, and the tick
  sends no order: it goes on to the entry decision, which finds the position in its way.
  (2) The dry-run futures bot, with its position at 98.9 for an entry at 100, decides
  \<open>DRY_CLOSE_STOP_LOSS\<close> and sends nothing.
\<close>

theorem stop_loss_as_stated_fails:
  "positionPnl threeLong = - 1 \<and>
   roundedPnl threeLong = Num (- (9007199254740933 / 9007199254740992)) \<and>
   orders (stateAfter (runBotTick (tickWithPosition threeLong)
             (startLoop futuresBot (countersAt 5 0)))) = [] \<and>
   map_option reason (tickDecision (stateAfter (runBotTick (tickWithPosition threeLong)
             (startLoop futuresBot (countersAt 5 0))))) = Some ''POSITION_EXISTS'' \<and>
   map_option action (tickDecision (stateAfter
      (runBotTick ((calmTick (Some dryFuturesBot))\<lparr>positionRisk := Inr (Some (longAt (989 / 10)))\<rparr>)
         (startLoop dryFuturesBot (countersAt 5 0))))) = Some ''DRY_CLOSE_STOP_LOSS'' \<and>
   orders (stateAfter
      (runBotTick ((calmTick (Some dryFuturesBot))\<lparr>positionRisk := Inr (Some (longAt (989 / 10)))\<rparr>)
         (startLoop dryFuturesBot (countersAt 5 0)))) = []"
proof (intro conjI)
  have mark: "fl (297 / 100) = Num (6687845446645187 / 2251799813685248)"
             "fl (- (3 / 100)) = Num (- (1080863910568919 / 36028797018963968))"
    by (simp_all add: num_defs Let_def)
  have marks: "fl (989 / 10) = Num (3479734399585485 / 35184372088832)"
    by (simp add: num_defs Let_def)
  show "positionPnl threeLong = - 1"
    by (simp add: positionPnl_def threeLong_def)
  show pnl: "roundedPnl threeLong = Num (- (9007199254740933 / 9007199254740992))"
    by (simp add: roundedPnl_def threeLong_def mark fl_numeral js_sub_Num js_gt_def num_defs
        Let_def)
  have pnl': "js_mul (js_div (js_sub (Num (6687845446645187 / 2251799813685248)) (Num 3)) (Num 3))
                (Num 100) = Num (- (9007199254740933 / 9007199254740992))"
    using pnl by (simp add: roundedPnl_def threeLong_def mark fl_numeral js_gt_def)
  show "orders (stateAfter (runBotTick (tickWithPosition threeLong)
             (startLoop futuresBot (countersAt 5 0)))) = []"
    by (simp add: tickWithPosition_def threeLong_def tick_defs calm_values bot_simps mark pnl'
        fl_numeral js_gt_def js_ge_def orZero_def fifth_val Let_def)
  show "map_option reason (tickDecision (stateAfter (runBotTick (tickWithPosition threeLong)
             (startLoop futuresBot (countersAt 5 0))))) = Some ''POSITION_EXISTS''"
    by (simp add: tickWithPosition_def threeLong_def tick_defs calm_values bot_simps mark pnl'
        fl_numeral js_gt_def js_ge_def orZero_def fifth_val Let_def)
  have pnl2: "js_mul (js_div (js_sub (Num (3479734399585485 / 35184372088832)) (Num 100))
                (Num 100)) (Num 100) = Num (- (38702809297715 / 35184372088832))"
    using example_pnl(1) by (simp add: roundedPnl_def longAt_def marks fl_numeral js_gt_def)
  have unreal: "\<exists>u. fl (2 * (989 / 10 - 100)) = Num u"
    by (simp add: num_defs Let_def)
  then obtain u where u: "fl (- (11 / 5)) = Num u" by auto
  show "map_option action (tickDecision (stateAfter
      (runBotTick ((calmTick (Some dryFuturesBot))\<lparr>positionRisk := Inr (Some (longAt (989 / 10)))\<rparr>)
         (startLoop dryFuturesBot (countersAt 5 0))))) = Some ''DRY_CLOSE_STOP_LOSS''"
    by (simp add: longAt_def tick_defs calm_values bot_simps marks pnl2 u fl_numeral js_gt_def
        js_ge_def orZero_def Let_def)
  show "orders (stateAfter
      (runBotTick ((calmTick (Some dryFuturesBot))\<lparr>positionRisk := Inr (Some (longAt (989 / 10)))\<rparr>)
         (startLoop dryFuturesBot (countersAt 5 0)))) = []"
    by (simp add: longAt_def tick_defs calm_values bot_simps marks pnl2 u fl_numeral js_gt_def
        js_ge_def orZero_def Let_def)
qed

section \<open>Cooldown\<close>

text \<open>
  The cooldown gate of the futures branch. On a futures tick that reaches the entry
  decision with a valid quantity and no duplicate-position veto, with
  \<open>cooldownCandles = c\<close> (not 0), the last order placed at tick \<open>n\<close> and this tick being
  tick \<open>n + k\<close> (ticks as counted by \<open>candleCount\<close>): if \<open>k < c\<close> the tick sends no order,
  its decision is \<open>NONE\<close> with reason \<open>COOLDOWN\<close>, and the last order is still the one of
  tick \<open>n\<close>; if \<open>k \<ge> c\<close> the reason is not \<open>COOLDOWN\<close> and the entry follows the signal
  (\<open>LONG\<close> buys, \<open>SHORT\<close> sells, with reason \<open>MA_CROSS\<close>), and an order that goes through
  makes tick \<open>n + k\<close> the tick of the last order.
\<close>

lemma cooldown_gate:
  assumes "getBotById env = Inr ub"
      and "klines env = Inr ks"
      and "setLeverage env = None"
      and "futuresAccount env = Inr w"
      and "positionRisk env = Inr pos"
      and "cfg = config (refresh ub ls)"
      and "enabled cfg"
      and "market cfg = ''futures''"
      and "allowed (snd (checkMaxLoss (runtime ls) cfg (fl w) (dateNow env)))"
      and "runBotTick env ls = Next ls'"
      and "checkStopLossTakeProfit (toStatePosition pos) cfg = None"
      and "price = lastOf (finiteCloses ks)"
      and "qtyValid cfg price"
      and "amt = positionAmt (toStatePosition pos)"
      and "\<not> js_gt (js_abs amt) (Num 0) \<or> \<not> preventDuplicate cfg"
      and "position cfg = Some pc"
      and "cooldownCandles pc = JNumber (Num c)" and "c \<noteq> 0"
      and "lastOrderCandle (runtime ls) = n"
      and "candleCount (runtime ls) + 1 = n + k"
      and "sig = signal (tickSignal cfg (finiteCloses ks))"
  shows "(rat_of_int k < c \<longrightarrow>
            orders ls' = orders ls \<and>
            tickDecision ls' =
              Some \<lparr>action = ''NONE'', reason = ''COOLDOWN'', qty = orderQty cfg price,
                    decSignal = Some sig, lastPrice = price, pnl = None\<rparr> \<and>
            lastOrderCandle (runtime ls') = n \<and> candleCount (runtime ls') = n + k) \<and>
         (c \<le> rat_of_int k \<longrightarrow>
            (\<exists>d. tickDecision ls' = Some d \<and> reason d \<noteq> ''COOLDOWN'' \<and>
                 (sig = LONG \<and> js_le amt (Num 0) \<longrightarrow>
                    action d = (if dryRun cfg then ''DRY_BUY'' else ''BUY'') \<and>
                    reason d = ''MA_CROSS'' \<and>
                    orders ls' = orders ls @
                      (if dryRun cfg then [] else [entryOrder ''BUY'' (orderQty cfg price)]) \<and>
                    (dryRun cfg \<or> placeOrder env = None \<longrightarrow>
                       lastOrderCandle (runtime ls') = n + k)) \<and>
                 (sig = SHORT \<and> js_ge amt (Num 0) \<longrightarrow>
                    action d = (if dryRun cfg then ''DRY_SELL'' else ''SELL'') \<and>
                    reason d = ''MA_CROSS'' \<and>
                    orders ls' = orders ls @
                      (if dryRun cfg then [] else [entryOrder ''SELL'' (orderQty cfg price)]) \<and>
                    (dryRun cfg \<or> placeOrder env = None \<longrightarrow>
                       lastOrderCandle (runtime ls') = n + k))))"
proof -
  let ?sp = "toStatePosition pos"
  obtain l where l: "config l = cfg" "orders l = orders ls"
      "candleCount (runtime l) = candleCount (runtime ls) + 1"
      "lastOrderCandle (runtime l) = lastOrderCandle (runtime ls)"
      "orders ls' = orders (snd (futuresAct env sig (finiteCloses ks) ?sp l))"
      "tickDecision ls' = tickDecision (snd (futuresAct env sig (finiteCloses ks) ?sp l))"
      "runtime ls' = runtime (snd (futuresAct env sig (finiteCloses ks) ?sp l))"
    using allowed_tick_path [OF assms(1-10)] assms(21) by blast
  have act: "futuresAct env sig (finiteCloses ks) ?sp l =
               futuresEntry env sig (finiteCloses ks) amt l"
    using assms(11,14) l(1) by (simp add: futuresAct_def)
  have out: "orders ls' = orders (snd (futuresEntry env sig (finiteCloses ks) amt l))"
      "tickDecision ls' = tickDecision (snd (futuresEntry env sig (finiteCloses ks) amt l))"
      "runtime ls' = runtime (snd (futuresEntry env sig (finiteCloses ks) amt l))"
    using l(5,6,7) by (simp_all add: act)
  have now: "candleCount (runtime l) = n + k" "lastOrderCandle (runtime l) = n"
    using l(3,4) assms(19,20) by simp_all
  have cool: "checkCooldown (runtime l) cfg = (c \<le> rat_of_int k)"
    using assms(16,17,18) now by (simp add: checkCooldown_def Let_def js_ge_def)
  have can: "\<not> js_gt (js_abs amt) (Num 0) \<or> \<not> preventDuplicate cfg"
    using assms(15) by simp
  have rejected: "orders ls' = orders ls \<and>
            tickDecision ls' =
              Some \<lparr>action = ''NONE'', reason = ''COOLDOWN'', qty = orderQty cfg price,
                    decSignal = Some sig, lastPrice = price, pnl = None\<rparr> \<and>
            lastOrderCandle (runtime ls') = n \<and> candleCount (runtime ls') = n + k"
    if "rat_of_int k < c"
    using that cool can assms(12,13) l(1,2) now
    by (simp add: out futuresEntry_def Let_def)
  have eligible: "\<exists>d. tickDecision ls' = Some d \<and> reason d \<noteq> ''COOLDOWN'' \<and>
                 (sig = LONG \<and> js_le amt (Num 0) \<longrightarrow>
                    action d = (if dryRun cfg then ''DRY_BUY'' else ''BUY'') \<and>
                    reason d = ''MA_CROSS'' \<and>
                    orders ls' = orders ls @
                      (if dryRun cfg then [] else [entryOrder ''BUY'' (orderQty cfg price)]) \<and>
                    (dryRun cfg \<or> placeOrder env = None \<longrightarrow>
                       lastOrderCandle (runtime ls') = n + k)) \<and>
                 (sig = SHORT \<and> js_ge amt (Num 0) \<longrightarrow>
                    action d = (if dryRun cfg then ''DRY_SELL'' else ''SELL'') \<and>
                    reason d = ''MA_CROSS'' \<and>
                    orders ls' = orders ls @
                      (if dryRun cfg then [] else [entryOrder ''SELL'' (orderQty cfg price)]) \<and>
                    (dryRun cfg \<or> placeOrder env = None \<longrightarrow>
                       lastOrderCandle (runtime ls') = n + k))"
    if "c \<le> rat_of_int k"
    using that cool can assms(12,13) l(1,2) now
    by (cases sig)
       (auto simp: out futuresEntry_def Let_def placeFuturesEntry_effects entryOrder_def
          placeFuturesEntry_runtime)
  from rejected eligible show ?thesis by blast
qed

text \<open>
  Claim C6 says that after an order at tick \<open>N\<close> an entry attempt before tick \<open>N + c\<close> is
  rejected with \<open>COOLDOWN\<close>. With \<open>cooldownCandles = 3\<close> and the last order at tick 5, the
  futures bot is rejected at ticks 6 and 7 and buys at tick 8. The spot bot, with the same
  settings and the same candles, buys at ticks 6, 7 and 8: its branch never calls
  \<open>checkCooldown\<close> and never advances \<open>lastOrderCandle\<close>.
\<close>

theorem spot_bot_ignores_cooldown:
  "(\<exists>ls'. runBot (startLoop spotBot (countersAt 5 5))
            [calmTick (Some spotBot), calmTick (Some spotBot), calmTick (Some spotBot)]
              = Next ls' \<and>
          map (\<lambda>r. map_option reason (rowLastDecision r)) (written ls') =
            [Some ''MA_CROSS'', Some ''MA_CROSS'', Some ''MA_CROSS''] \<and>
          orders ls' =
            [SpotOrder \<lparr>side = ''BUY'', orderType = ''MARKET'', quantity = fifth,
                        reduceOnly = False\<rparr>,
             SpotOrder \<lparr>side = ''BUY'', orderType = ''MARKET'', quantity = fifth,
                        reduceOnly = False\<rparr>,
             SpotOrder \<lparr>side = ''BUY'', orderType = ''MARKET'', quantity = fifth,
                        reduceOnly = False\<rparr>] \<and>
          candleCount (runtime ls') = 8 \<and> lastOrderCandle (runtime ls') = 5) \<and>
   (\<exists>ls'. runBot (startLoop futuresBot (countersAt 5 5))
            [calmTick (Some futuresBot), calmTick (Some futuresBot), calmTick (Some futuresBot)]
              = Next ls' \<and>
          map (\<lambda>r. map_option reason (rowLastDecision r)) (written ls') =
            [Some ''COOLDOWN'', Some ''COOLDOWN'', Some ''MA_CROSS''] \<and>
          orders ls' = [entryOrder ''BUY'' fifth] \<and>
          candleCount (runtime ls') = 8 \<and> lastOrderCandle (runtime ls') = 8)"
  by (simp add: calm_eval entryOrder_def)

section \<open>Failed ticks\<close>




text \<open>The failing fetches of an enabled bot's tick are thrown inside the \<open>try\<close> block.\<close>

lemma fetch_failures_are_thrown:
  assumes "enabled (config l)"
  shows "klines env = Inl e \<Longrightarrow> fst (tryBody env l) = Some e"
    and "klines env = Inr ks \<Longrightarrow> market (config l) = ''futures'' \<Longrightarrow>
         setLeverage env = Some e \<Longrightarrow> fst (tryBody env l) = Some e"
    and "klines env = Inr ks \<Longrightarrow> market (config l) = ''futures'' \<Longrightarrow>
         setLeverage env = None \<Longrightarrow> futuresAccount env = Inl e \<Longrightarrow>
         fst (tryBody env l) = Some e"
    and "klines env = Inr ks \<Longrightarrow> market (config l) = ''futures'' \<Longrightarrow>
         setLeverage env = None \<Longrightarrow> futuresAccount env = Inr w \<Longrightarrow>
         positionRisk env = Inl e \<Longrightarrow> fst (tryBody env l) = Some e"
    and "klines env = Inr ks \<Longrightarrow> market (config l) \<noteq> ''futures'' \<Longrightarrow>
         \<not> dryRun (config l) \<Longrightarrow> spotAccount env = Some e \<Longrightarrow>
         fst (tryBody env l) = Some e"
  using assms
  by (simp_all add: tryBody_def Let_def futuresBranch_def spotBranch_def
      recordMarketData_def countCandle_def)

text \<open>
  A rejected order: the request was made, the tick is recorded as \<open>ERROR\<close> with the
  exchange's message, and neither \<open>lastDecision\<close> nor the tick of the last order changes.
\<close>

lemma rejected_order_is_recorded:
  "\<exists>ls'. runBotTick
           ((calmTick (Some futuresBot))\<lparr>placeOrder := Some (apiError ''400'' ''Margin is insufficient'')\<rparr>)
           (startLoop futuresBot (countersAt 7 5)) = Next ls' \<and>
         orders ls' = [entryOrder ''BUY'' fifth] \<and>
         map_option rowStatus (snapshot ls') = Some (Some ''ERROR'') \<and>
         map_option rowErrorMessage (snapshot ls') =
           Some (Some ''Binance API error 400: Margin is insufficient'') \<and>
         lastDecision ls' = None \<and>
         lastOrderCandle (runtime ls') = 5"
  by (simp add: calm_eval entryOrder_def apiError_def)

section \<open>The spot branch and the risk engine\<close>

text \<open>
  Claim C1 says that the loss breaker, stop-loss/take-profit and the entry gates run on
  every tick of an enabled bot, spot or futures. The spot branch calls none of them. A
  live spot bot whose loss accumulators stand at 500 and whose last order was placed in
  the tick before (with \<open>cooldownCandles = 3\<close>) sends a market \<open>BUY\<close> on a \<open>LONG\<close> signal and
  reports \<open>RUNNING\<close>. The same bot configured for futures, with a wallet of 1000, is
  \<open>BLOCKED\<close> and sends nothing; without the losses it is rejected with \<open>COOLDOWN\<close>.
\<close>

theorem spot_tick_runs_no_risk_check:
  "(\<exists>ls'. runBotTick (calmTick (Some spotBot))
            (startLoop spotBot ((countersAt 5 5)\<lparr>dailyLoss := Num 500, totalLoss := Num 500\<rparr>))
              = Next ls' \<and>
          orders ls' = [SpotOrder \<lparr>side = ''BUY'', orderType = ''MARKET'', quantity = fifth,
                                   reduceOnly = False\<rparr>] \<and>
          map_option reason (tickDecision ls') = Some ''MA_CROSS'' \<and>
          map_option rowStatus (snapshot ls') = Some (Some ''RUNNING'')) \<and>
   (\<exists>ls'. runBotTick (calmTick (Some futuresBot))
            (startLoop futuresBot ((countersAt 5 5)\<lparr>dailyLoss := Num 500, totalLoss := Num 500\<rparr>))
              = Next ls' \<and>
          orders ls' = [] \<and> tickDecision ls' = None \<and>
          map_option rowStatus (snapshot ls') = Some (Some ''BLOCKED'')) \<and>
   (\<exists>ls'. runBotTick (calmTick (Some futuresBot)) (startLoop futuresBot (countersAt 5 5)) = Next ls' \<and>
          orders ls' = [] \<and> map_option reason (tickDecision ls') = Some ''COOLDOWN'')"
  by (simp add: calm_eval)

section \<open>Properties of the scheduler\<close>

text \<open>No pass ends a loop: the executing loops only grow.\<close>

lemma syncBots_never_stops_a_loop:
  "\<exists>started. loops (syncBots creds bots sch) = loops sch @ started"
proof -
  have "\<exists>started. loops (foldl (startIfNew creds) s bs) = loops s @ started" for s bs
  proof (induction bs arbitrary: s)
    case Nil
    show ?case by simp
  next
    case (Cons b bs)
    have "\<exists>one. loops (startIfNew creds s b) = loops s @ one"
      by (auto simp: startIfNew_def Let_def split: option.splits)
    with Cons [of "startIfNew creds s b"] show ?case by auto
  qed
  then show ?thesis by (simp add: syncBots_def Let_def)
qed

text \<open>
  What a pass does keep: when every executing loop is tracked in \<open>runningBots\<close>, no two
  loops share a bot id, and no executing loop's bot is missing from the list, the same
  holds after the pass.
\<close>

lemma startIfNew_tracked:
  assumes "distinct (loopIds sch)" and "set (loopIds sch) \<subseteq> set (runningBots sch)"
  shows "distinct (loopIds (startIfNew creds sch b)) \<and>
         set (loopIds (startIfNew creds sch b)) \<subseteq> set (runningBots (startIfNew creds sch b)) \<and>
         set (loopIds (startIfNew creds sch b)) \<subseteq> set (loopIds sch) \<union> {botId b}"
  using assms by (auto simp: startIfNew_def loopIds_def Let_def split: option.splits)

lemma foldl_startIfNew_tracked:
  assumes "distinct (loopIds sch)" and "set (loopIds sch) \<subseteq> set (runningBots sch)"
  shows "distinct (loopIds (foldl (startIfNew creds) sch bots)) \<and>
         set (loopIds (foldl (startIfNew creds) sch bots))
           \<subseteq> set (runningBots (foldl (startIfNew creds) sch bots)) \<and>
         set (loopIds (foldl (startIfNew creds) sch bots))
           \<subseteq> set (loopIds sch) \<union> botId ` set bots"
  using assms
proof (induction bots arbitrary: sch)
  case Nil
  then show ?case by simp
next
  case (Cons b bots)
  from startIfNew_tracked [OF Cons.prems, of creds b]
  have step: "distinct (loopIds (startIfNew creds sch b))"
      "set (loopIds (startIfNew creds sch b)) \<subseteq> set (runningBots (startIfNew creds sch b))"
      "set (loopIds (startIfNew creds sch b)) \<subseteq> set (loopIds sch) \<union> {botId b}"
    by simp_all
  from Cons.IH [OF step(1,2)] step(3) show ?case by auto
qed

lemma syncBots_keeps_one_loop_per_id:
  assumes "distinct (loopIds sch)"
      and "set (loopIds sch) \<subseteq> set (runningBots sch)"
      and "set (loopIds sch) \<subseteq> botId ` set bots"
  shows "distinct (loopIds (syncBots creds bots sch)) \<and>
         set (loopIds (syncBots creds bots sch)) \<subseteq> set (runningBots (syncBots creds bots sch))"
proof -
  let ?s1 = "foldl (startIfNew creds) sch bots"
  from foldl_startIfNew_tracked [OF assms(1,2), of creds bots]
  have d: "distinct (loopIds ?s1)"
    and sub: "set (loopIds ?s1) \<subseteq> set (runningBots ?s1)"
    and new: "set (loopIds ?s1) \<subseteq> set (loopIds sch) \<union> botId ` set bots"
    by simp_all
  have ids: "loopIds (syncBots creds bots sch) = loopIds ?s1"
    by (simp add: syncBots_def Let_def loopIds_def)
  have run: "set (runningBots (syncBots creds bots sch)) =
               set (runningBots ?s1) \<inter> botId ` set bots"
    by (auto simp: syncBots_def Let_def)
  from new assms(3) have "set (loopIds ?s1) \<subseteq> botId ` set bots" by blast
  with d sub ids run show ?thesis by auto
qed

text \<open>
  Claim C7 says that a pass which finds the configuration of a running loop deleted
  signals that loop to stop. \<open>syncBots\<close> only drops the id from \<open>runningBots\<close>: after the
  pass over an empty list the loop started for \<open>bot-1\<close> is still executing, and its next
  tick, for which the store has no configuration any more, goes on with the old one and
  sends a market \<open>BUY\<close>. Should the store refuse the snapshot of a deleted bot, the order
  is sent all the same and the loop then ends by crashing, not by a signal.
\<close>

theorem deleted_bot_loop_keeps_running:
  "syncBots testnetOnly [futuresBot] idle = \<lparr>runningBots = [''bot-1''], loops = [firstLoop]\<rparr> \<and>
   syncBots testnetOnly [] \<lparr>runningBots = [''bot-1''], loops = [firstLoop]\<rparr> =
     \<lparr>runningBots = [], loops = [firstLoop]\<rparr> \<and>
   (\<exists>ls'. runBotTick (calmTick None) (startLoop futuresBot (countersAt 5 0)) = Next ls' \<and>
          config ls' = futuresBot \<and>
          orders ls' = [entryOrder ''BUY'' fifth]) \<and>
   (\<exists>ls'. runBotTick
            ((calmTick None)\<lparr>upsertInTry := Some storeError, upsertInCatch := Some storeError\<rparr>)
            (startLoop futuresBot (countersAt 5 0)) = Crashed storeError ls' \<and>
          orders ls' = [entryOrder ''BUY'' fifth])"
  by (simp add: syncBots_def startIfNew_def calm_eval testnetOnly_def idle_def
      firstLoop_def storeError_def entryOrder_def)

text \<open>
  Claim C9 says that no sequence of passes leaves two loops for one bot id. A pass over
  \<open>[bot-1]\<close>, one over the empty list (the bot was deleted) and one over \<open>[bot-1]\<close> again
  (a bot was created under the same id) leave two executing loops for \<open>bot-1\<close>.
\<close>

theorem recreated_bot_gets_second_loop:
  "syncBots testnetOnly [futuresBot] (syncBots testnetOnly [] (syncBots testnetOnly [futuresBot] idle)) =
     \<lparr>runningBots = [''bot-1''], loops = [firstLoop, firstLoop]\<rparr> \<and>
   loopIds (syncBots testnetOnly [futuresBot]
             (syncBots testnetOnly [] (syncBots testnetOnly [futuresBot] idle))) =
     [''bot-1'', ''bot-1'']"
  by (simp add: syncBots_def startIfNew_def loopIds_def bot_simps testnetOnly_def idle_def
      firstLoop_def Let_def)

end
